theory Spec2Isabelle
  imports Complex_Main "HOL-Library.Word"
begin

section \<open>The values of the page: numbers and strings\<close>

text \<open>
  The settlement page is TypeScript. Its amounts have the type \<open>number\<close>: an IEEE double,
  which is a finite value, one of the two infinities or NaN. Every finite double is an
  integer multiple of \<open>2^-1074\<close>, the smallest positive double, and a finite number is
  represented by that multiple: \<open>Fin k\<close> is the double \<open>k * 2^-1074\<close>. The two zeros are the
  one \<open>Fin 0\<close> (no operation of the page tells them apart).
\<close>

datatype number = NaN | PInf | NInf | Fin int

text \<open>The multiple that stands for the double \<open>1\<close>, and the double of a whole number.\<close>

definition scale :: int where
  "scale = 2 ^ 1074"

definition whole :: "int \<Rightarrow> number" where
  "whole n = Fin (n * scale)"

text \<open>\<open>Number.isNaN\<close>.\<close>

fun isNaN :: "number \<Rightarrow> bool" where
  "isNaN NaN = True"
| "isNaN _ = False"

text \<open>The comparison \<open>a < b\<close>: false as soon as one side is NaN.\<close>

fun js_less :: "number \<Rightarrow> number \<Rightarrow> bool" where
  "js_less NaN _ = False"
| "js_less _ NaN = False"
| "js_less PInf _ = False"
| "js_less _ NInf = False"
| "js_less NInf _ = True"
| "js_less (Fin a) PInf = True"
| "js_less (Fin a) (Fin b) = (a < b)"

text \<open>\<open>a > b\<close> is \<open>b < a\<close>; \<open>a <= b\<close> is false on NaN and otherwise the negation of \<open>b < a\<close>.\<close>

definition js_gt :: "number \<Rightarrow> number \<Rightarrow> bool" where
  "js_gt a b = js_less b a"

definition js_le :: "number \<Rightarrow> number \<Rightarrow> bool" where
  "js_le a b = (\<not> isNaN a \<and> \<not> isNaN b \<and> \<not> js_less b a)"

text \<open>The comparison \<open>a == b\<close> of two numbers: NaN equals nothing.\<close>

definition js_eq :: "number \<Rightarrow> number \<Rightarrow> bool" where
  "js_eq a b = (\<not> isNaN a \<and> a = b)"

text \<open>The number of binary digits of a natural number.\<close>

fun bits :: "nat \<Rightarrow> nat" where
  "bits n = (if n = 0 then 0 else Suc (bits (n div 2)))"

declare bits.simps [simp del]

text \<open>
  The rounding of IEEE arithmetic, to the nearest double and to the even significand on a
  tie. The exact result is \<open>P / Q\<close> multiples of \<open>2^-1074\<close>, with \<open>0 <= P\<close> and \<open>0 < Q\<close>. A
  double has 53 significant bits: the result is rounded to a multiple of \<open>2^s\<close>, where \<open>s\<close>
  is the number of bits that the whole part of \<open>P / Q\<close> has beyond 53 (none for the
  subnormal doubles and the first normal ones, which are all the multiples below \<open>2^53\<close>).
\<close>

definition roundHalfEven :: "int \<Rightarrow> int \<Rightarrow> int" where
  "roundHalfEven P Q =
     (let s = bits (nat (P div Q)) - 53;
          d = Q * 2 ^ s;
          q = P div d;
          r = P mod d
      in (if d < 2 * r \<or> (2 * r = d \<and> odd q) then q + 1 else q) * 2 ^ s)"

text \<open>
  The number of a sign and a magnitude \<open>P / Q\<close>: the rounded magnitude, or an infinity when
  it reaches \<open>2^1024\<close>.
\<close>

definition toDouble :: "bool \<Rightarrow> int \<Rightarrow> int \<Rightarrow> number" where
  "toDouble neg P Q =
     (let n = roundHalfEven P Q
      in if 2 ^ 1024 * scale \<le> n then (if neg then NInf else PInf)
         else Fin (if neg then - n else n))"

text \<open>The subtraction \<open>a - b\<close>.\<close>

fun js_sub :: "number \<Rightarrow> number \<Rightarrow> number" where
  "js_sub NaN _ = NaN"
| "js_sub _ NaN = NaN"
| "js_sub PInf PInf = NaN"
| "js_sub PInf _ = PInf"
| "js_sub NInf NInf = NaN"
| "js_sub NInf _ = NInf"
| "js_sub (Fin a) PInf = NInf"
| "js_sub (Fin a) NInf = PInf"
| "js_sub (Fin a) (Fin b) = toDouble (a < b) \<bar>a - b\<bar> 1"

text \<open>
  A string is its sequence of UTF-16 code units. \<open>js\<close> embeds a literal of this text.
\<close>

type_synonym jsstring = "16 word list"

definition js :: "string \<Rightarrow> jsstring" where
  "js s = map of_char s"

text \<open>
  The white space and the line terminators of ECMAScript: what \<open>String.prototype.trim\<close>
  removes at both ends, and what \<open>Number\<close> skips around a numeric literal.
\<close>

definition isWhiteSpace :: "16 word \<Rightarrow> bool" where
  "isWhiteSpace c =
     (c \<in> {0x9, 0xA, 0xB, 0xC, 0xD, 0x20, 0xA0, 0x1680, 0x2028, 0x2029, 0x202F, 0x205F,
            0x3000, 0xFEFF}
      \<or> (0x2000 \<le> c \<and> c \<le> 0x200A))"

definition trim :: "jsstring \<Rightarrow> jsstring" where
  "trim s = rev (dropWhile isWhiteSpace (rev (dropWhile isWhiteSpace s)))"

subsection \<open>\<open>Number(string)\<close>\<close>

definition isDigit :: "16 word \<Rightarrow> bool" where
  "isDigit c = (0x30 \<le> c \<and> c \<le> 0x39)"

definition isHexDigit :: "16 word \<Rightarrow> bool" where
  "isHexDigit c = (isDigit c \<or> (0x41 \<le> c \<and> c \<le> 0x46) \<or> (0x61 \<le> c \<and> c \<le> 0x66))"

definition digitValue :: "16 word \<Rightarrow> nat" where
  "digitValue c =
     (if isDigit c then unat c - 48
      else if 0x41 \<le> c \<and> c \<le> 0x46 then unat c - 55
      else unat c - 87)"

definition digitsValue :: "nat \<Rightarrow> jsstring \<Rightarrow> nat" where
  "digitsValue base ds = foldl (\<lambda>acc c. acc * base + digitValue c) 0 ds"

text \<open>
  The exponent part of a decimal literal: nothing, or \<open>e\<close> or \<open>E\<close>, an optional sign and
  at least one digit. The result is the exponent, \<open>None\<close> when the text is no exponent part.
\<close>

definition exponentPart :: "jsstring \<Rightarrow> int option" where
  "exponentPart r =
     (case r of
        [] \<Rightarrow> Some 0
      | c # r' \<Rightarrow>
          if c = 0x65 \<or> c = 0x45 then
            (let (sgn, ds) =
                   (case r' of
                      [] \<Rightarrow> (1, [])
                    | d # r'' \<Rightarrow>
                        if d = 0x2B then (1, r'')
                        else if d = 0x2D then (- 1, r'')
                        else (1, r'))
             in if ds \<noteq> [] \<and> list_all isDigit ds
                then Some (sgn * int (digitsValue 10 ds)) else None)
          else None)"

text \<open>
  An unsigned decimal literal: digits, an optional point and digits (at least one digit in
  all), then the exponent part. The result is its value as a quotient \<open>P / Q\<close> of multiples
  of \<open>2^-1074\<close>: the digits \<open>m\<close> and the power of ten \<open>k\<close> give \<open>m * 10^k\<close>.
\<close>

definition unsignedDecimal :: "jsstring \<Rightarrow> (int \<times> int) option" where
  "unsignedDecimal t =
     (let ip = takeWhile isDigit t;
          r1 = dropWhile isDigit t;
          (fp, r2) =
             (case r1 of
                [] \<Rightarrow> ([], [])
              | c # r' \<Rightarrow>
                  if c = 0x2E then (takeWhile isDigit r', dropWhile isDigit r')
                  else ([], r1))
      in if ip = [] \<and> fp = [] then None
         else
           (case exponentPart r2 of
              None \<Rightarrow> None
            | Some e \<Rightarrow>
                (let m = int (digitsValue 10 (ip @ fp));
                     k = e - int (length fp)
                 in Some (if 0 \<le> k then (m * 10 ^ nat k * scale, 1)
                          else (m * scale, 10 ^ nat (- k))))))"

text \<open>
  A signed decimal literal: an optional sign, then \<open>Infinity\<close> or an unsigned decimal,
  whose value is rounded to a double.
\<close>

definition strDecimalLiteral :: "jsstring \<Rightarrow> number" where
  "strDecimalLiteral t =
     (let (neg, u) =
            (case t of
               [] \<Rightarrow> (False, [])
             | c # t' \<Rightarrow>
                 if c = 0x2B then (False, t')
                 else if c = 0x2D then (True, t')
                 else (False, t))
      in if u = js ''Infinity'' then (if neg then NInf else PInf)
         else
           (case unsignedDecimal u of
              None \<Rightarrow> NaN
            | Some (P, Q) \<Rightarrow> toDouble neg P Q))"

text \<open>
  A binary, octal or hexadecimal integer literal (\<open>0b\<close>, \<open>0o\<close>, \<open>0x\<close>, either case, unsigned),
  \<open>None\<close> when the text has no such prefix.
\<close>

definition nonDecimalLiteral :: "jsstring \<Rightarrow> number option" where
  "nonDecimalLiteral t =
     (case t of
        z # p # ds \<Rightarrow>
          if z \<noteq> 0x30 then None
          else if p = 0x78 \<or> p = 0x58 then
            Some (if ds \<noteq> [] \<and> list_all isHexDigit ds
                  then toDouble False (int (digitsValue 16 ds) * scale) 1 else NaN)
          else if p = 0x6F \<or> p = 0x4F then
            Some (if ds \<noteq> [] \<and> list_all (\<lambda>c. 0x30 \<le> c \<and> c \<le> 0x37) ds
                  then toDouble False (int (digitsValue 8 ds) * scale) 1 else NaN)
          else if p = 0x62 \<or> p = 0x42 then
            Some (if ds \<noteq> [] \<and> list_all (\<lambda>c. c = 0x30 \<or> c = 0x31) ds
                  then toDouble False (int (digitsValue 2 ds) * scale) 1 else NaN)
          else None
      | _ \<Rightarrow> None)"

text \<open>
  \<open>Number(s)\<close> of a string: the white space around is skipped; the empty text is \<open>0\<close>; a
  numeric literal is its value; anything else is NaN.
\<close>

definition Number :: "jsstring \<Rightarrow> number" where
  "Number s =
     (let t = trim s
      in if t = [] then Fin 0
         else
           (case nonDecimalLiteral t of
              Some v \<Rightarrow> v
            | None \<Rightarrow> strDecimalLiteral t))"

text \<open>\<open>Number(x)\<close> of a value that is a number already is that number.\<close>

definition Number_of_number :: "number \<Rightarrow> number" where
  "Number_of_number x = x"

subsection \<open>\<open>String(id)\<close>\<close>

text \<open>
  The identifiers of the entries are database keys: integers. \<open>String\<close> of an integer below
  \<open>10^21\<close> in magnitude is its decimal numeral, with a minus sign when negative.
\<close>

fun decimal :: "nat \<Rightarrow> jsstring" where
  "decimal n = (if n < 10 then [of_nat (48 + n)] else decimal (n div 10) @ [of_nat (48 + n mod 10)])"

declare decimal.simps [simp del]

definition String :: "int \<Rightarrow> jsstring" where
  "String n = (if n < 0 then 0x2D # decimal (nat (- n)) else decimal (nat n))"

section \<open>The data of the page\<close>

text \<open>
  The types of \<open>types.ts\<close>. The fields keep their names behind a prefix for their type
  (\<open>tx_\<close> for \<open>Transaction\<close>, \<open>sl_\<close> for \<open>SalaryLog\<close>, \<open>tc_\<close> for \<open>TransactionCreate\<close>,
  \<open>tu_\<close> for \<open>TransactionUpdate\<close>, \<open>sc_\<close> for \<open>SalaryLogCreate\<close>, \<open>rq_\<close> for
  \<open>SettleRequest\<close>), since several types share field names.
\<close>

datatype transaction_status = Pending | PartiallySettled | Settled

datatype category = Work | Personal

datatype source = Salary | Reimbursement | Other

text \<open>An optional, nullable field (\<open>remark?: string | null\<close>).\<close>

datatype 'a optional = Undefined | Null | Value 'a

record transaction =
  tx_id :: int
  tx_title :: jsstring
  tx_amount_out :: number
  tx_amount_reimbursed :: number
  tx_category :: category
  tx_status :: transaction_status
  tx_created_at :: jsstring

record salary_log =
  sl_id :: int
  sl_amount :: number
  sl_amount_unused :: number
  sl_month :: jsstring
  sl_source :: source
  sl_remark :: "jsstring optional"
  sl_received_date :: jsstring

record transaction_create =
  tc_title :: jsstring
  tc_amount_out :: number
  tc_category :: category

record transaction_update =
  tu_title :: jsstring
  tu_amount_out :: number
  tu_category :: category

record salary_log_create =
  sc_amount :: number
  sc_month :: jsstring
  sc_source :: source
  sc_remark :: "jsstring optional"

record settle_request =
  rq_transaction_id :: int
  rq_salary_log_id :: number
  rq_amount :: number

text \<open>The argument of the update mutation: the id of the entry and the new fields.\<close>

record update_request =
  up_id :: int
  up_payload :: transaction_update

text \<open>
  The state of \<open>SettlementPage\<close> that its handlers read: the \<open>useState\<close> variables and the
  data of the two queries (\<open>None\<close> while a query has no data).
\<close>

record page =
  selectedTransaction :: "transaction option"
  selectedSalaryId :: jsstring
  amount :: jsstring
  transactionsData :: "transaction list option"
  salaryLogsData :: "salary_log list option"
  transactionForm :: transaction_create
  salaryForm :: salary_log_create
  editingTransaction :: "transaction option"
  editForm :: transaction_update

text \<open>
  The messages that the handlers put in the form: in \<open>handleSubmit\<close>, that an income entry
  must be selected, that the amount is not valid, that it exceeds the outstanding balance of
  the debt entry, that it exceeds the balance of the income entry; in the three other
  handlers, that a title, a valid amount or a month is missing.
\<close>

datatype message =
    SelectIncome
  | InvalidAmount
  | ExceedsOutstanding
  | ExceedsAvailable
  | CreateTitleRequired
  | CreateInvalidAmount
  | IncomeInvalidAmount
  | IncomeMonthRequired
  | EditTitleRequired
  | EditInvalidAmount

text \<open>
  What a handler does: it returns at once (\<open>Ignored\<close>); it sets the error of the form to a
  message and returns (\<open>Rejected\<close>); or it clears the error and calls \<open>mutate\<close> with a
  request (\<open>Mutate\<close>).
\<close>

datatype 'r effect = Ignored | Rejected message | Mutate 'r

section \<open>The settlement dialog\<close>

text \<open>\<open>query.data ?? []\<close>.\<close>

definition dataOrEmpty :: "'a list option \<Rightarrow> 'a list" where
  "dataOrEmpty d = (case d of None \<Rightarrow> [] | Some l \<Rightarrow> l)"

text \<open>
  \<open>unsettledTransactions\<close>, as the first revision of the page computes it (by the
  outstanding balance) and as the later revisions do (by the status).
\<close>

definition unsettledTransactions_balance :: "page \<Rightarrow> transaction list" where
  "unsettledTransactions_balance p =
     filter (\<lambda>item. js_gt (js_sub (tx_amount_out item) (tx_amount_reimbursed item)) (Fin 0))
       (dataOrEmpty (transactionsData p))"

definition unsettledTransactions :: "page \<Rightarrow> transaction list" where
  "unsettledTransactions p =
     filter (\<lambda>item. tx_status item \<noteq> Settled) (dataOrEmpty (transactionsData p))"

definition availableSalaryLogs :: "page \<Rightarrow> salary_log list" where
  "availableSalaryLogs p =
     filter (\<lambda>item. js_gt (sl_amount_unused item) (Fin 0)) (dataOrEmpty (salaryLogsData p))"

definition selectedSalary :: "page \<Rightarrow> salary_log option" where
  "selectedSalary p =
     find (\<lambda>item. String (sl_id item) = selectedSalaryId p) (availableSalaryLogs p)"

definition remainingDebt :: "page \<Rightarrow> number" where
  "remainingDebt p =
     (case selectedTransaction p of
        None \<Rightarrow> Fin 0
      | Some t \<Rightarrow> js_sub (tx_amount_out t) (tx_amount_reimbursed t))"

definition handleSubmit :: "page \<Rightarrow> settle_request effect" where
  "handleSubmit p =
     (case selectedTransaction p of
        None \<Rightarrow> Ignored
      | Some t \<Rightarrow>
          if selectedSalaryId p = [] then Rejected SelectIncome
          else
            (let numericAmount = Number (amount p)
             in if amount p = [] \<or> isNaN numericAmount \<or> js_le numericAmount (Fin 0)
                then Rejected InvalidAmount
                else if js_gt numericAmount (remainingDebt p) then Rejected ExceedsOutstanding
                else if (case selectedSalary p of
                           None \<Rightarrow> False
                         | Some s \<Rightarrow> js_gt numericAmount (sl_amount_unused s))
                then Rejected ExceedsAvailable
                else Mutate \<lparr>rq_transaction_id = tx_id t,
                             rq_salary_log_id = Number (selectedSalaryId p),
                             rq_amount = numericAmount\<rparr>))"

section \<open>Creating and editing entries\<close>

definition handleCreateTransaction :: "page \<Rightarrow> transaction_create effect" where
  "handleCreateTransaction p =
     (let numericAmount = Number_of_number (tc_amount_out (transactionForm p))
      in if trim (tc_title (transactionForm p)) = [] then Rejected CreateTitleRequired
         else if isNaN numericAmount \<or> js_le numericAmount (Fin 0)
         then Rejected CreateInvalidAmount
         else Mutate ((transactionForm p)\<lparr>tc_amount_out := numericAmount\<rparr>))"

text \<open>\<open>remark?.trim() || null\<close>.\<close>

definition trimOrNull :: "jsstring optional \<Rightarrow> jsstring optional" where
  "trimOrNull r =
     (case r of
        Value s \<Rightarrow> if trim s = [] then Null else Value (trim s)
      | _ \<Rightarrow> Null)"

definition handleCreateSalaryLog :: "page \<Rightarrow> salary_log_create effect" where
  "handleCreateSalaryLog p =
     (let numericAmount = Number_of_number (sc_amount (salaryForm p))
      in if isNaN numericAmount \<or> js_le numericAmount (Fin 0)
         then Rejected IncomeInvalidAmount
         else if sc_month (salaryForm p) = [] then Rejected IncomeMonthRequired
         else Mutate ((salaryForm p)\<lparr>sc_amount := numericAmount,
                                       sc_remark := trimOrNull (sc_remark (salaryForm p))\<rparr>))"

text \<open>
  \<open>handleUpdateTransaction\<close>, as in the latest revision of the page, whose request carries
  the category; the revision before it sends the title and the amount only, after the
  same checks.
\<close>

definition handleUpdateTransaction :: "page \<Rightarrow> update_request effect" where
  "handleUpdateTransaction p =
     (case editingTransaction p of
        None \<Rightarrow> Ignored
      | Some t \<Rightarrow>
          if trim (tu_title (editForm p)) = [] then Rejected EditTitleRequired
          else
            (let numericAmount = Number_of_number (tu_amount_out (editForm p))
             in if isNaN numericAmount \<or> js_le numericAmount (Fin 0)
                then Rejected EditInvalidAmount
                else Mutate \<lparr>up_id = tx_id t,
                             up_payload = \<lparr>tu_title = trim (tu_title (editForm p)),
                                           tu_amount_out = numericAmount,
                                           tu_category = tu_category (editForm p)\<rparr>\<rparr>))"

section \<open>The statements of the specification\<close>

text \<open>
  The invariant that the specification gives for the status of a debt entry:
  \<open>0 <= amountReimbursed <= amountOut\<close>, and the status is settled exactly when
  \<open>amountReimbursed == amountOut\<close>.
\<close>

definition status_invariant :: "transaction \<Rightarrow> bool" where
  "status_invariant t =
     (js_le (Fin 0) (tx_amount_reimbursed t)
      \<and> js_le (tx_amount_reimbursed t) (tx_amount_out t)
      \<and> ((tx_status t = Settled) = js_eq (tx_amount_reimbursed t) (tx_amount_out t)))"

text \<open>
  Checks in an order: each is a condition under which it fails and what the handler then
  does. \<open>firstFailure\<close> is the outcome of the earliest check that fails.
\<close>

fun firstFailure :: "(('s \<Rightarrow> bool) \<times> 'e) list \<Rightarrow> 's \<Rightarrow> 'e option" where
  "firstFailure [] s = None"
| "firstFailure ((failing, outcome) # cs) s =
     (if failing s then Some outcome else firstFailure cs s)"

text \<open>
  The five checks of a settle submission, each with what \<open>handleSubmit\<close> does when it
  fails: a debt entry is selected; an income entry is selected; the amount is valid; the
  amount is at most the outstanding balance; the amount is at most the unused balance of
  the income entry of the selected identifier, when the list has one.
\<close>

definition debtCheck :: "(page \<Rightarrow> bool) \<times> settle_request effect" where
  "debtCheck = (\<lambda>p. selectedTransaction p = None, Ignored)"

definition incomeCheck :: "(page \<Rightarrow> bool) \<times> settle_request effect" where
  "incomeCheck = (\<lambda>p. selectedSalaryId p = [], Rejected SelectIncome)"

definition amountCheck :: "(page \<Rightarrow> bool) \<times> settle_request effect" where
  "amountCheck =
     (\<lambda>p. amount p = [] \<or> isNaN (Number (amount p)) \<or> js_le (Number (amount p)) (Fin 0),
      Rejected InvalidAmount)"

definition outstandingCheck :: "(page \<Rightarrow> bool) \<times> settle_request effect" where
  "outstandingCheck =
     (\<lambda>p. js_gt (Number (amount p)) (remainingDebt p), Rejected ExceedsOutstanding)"

text \<open>
  The last check, on the data: the income entry of the selected identifier is the first
  entry of the list that has a balance left and whose identifier prints as the selected one.
\<close>

fun incomeOfId :: "jsstring \<Rightarrow> salary_log list \<Rightarrow> salary_log option" where
  "incomeOfId sid [] = None"
| "incomeOfId sid (s # rest) =
     (if js_gt (sl_amount_unused s) (Fin 0) \<and> String (sl_id s) = sid then Some s
      else incomeOfId sid rest)"

definition unusedCheck :: "(page \<Rightarrow> bool) \<times> settle_request effect" where
  "unusedCheck =
     (\<lambda>p. case incomeOfId (selectedSalaryId p) (dataOrEmpty (salaryLogsData p)) of
             None \<Rightarrow> False
           | Some s \<Rightarrow> js_gt (Number (amount p)) (sl_amount_unused s),
      Rejected ExceedsAvailable)"

text \<open>The order in which \<open>handleSubmit\<close> makes them.\<close>

definition submitChecks :: "((page \<Rightarrow> bool) \<times> settle_request effect) list" where
  "submitChecks = [debtCheck, incomeCheck, amountCheck, outstandingCheck, unusedCheck]"

text \<open>
  The order that the specification states: the amount, the debt entry, the income entry,
  the outstanding balance, the unused balance.
\<close>

definition statedChecks :: "((page \<Rightarrow> bool) \<times> settle_request effect) list" where
  "statedChecks = [amountCheck, debtCheck, incomeCheck, outstandingCheck, unusedCheck]"

text \<open>The request that a submission passing every check sends.\<close>

definition submitRequest :: "page \<Rightarrow> settle_request" where
  "submitRequest p =
     \<lparr>rq_transaction_id = tx_id (the (selectedTransaction p)),
      rq_salary_log_id = Number (selectedSalaryId p),
      rq_amount = Number (amount p)\<rparr>"

text \<open>A handler issued a request; a handler reported a validation error.\<close>

fun issued :: "'r effect \<Rightarrow> bool" where
  "issued (Mutate r) = True"
| "issued _ = False"

fun rejected :: "'r effect \<Rightarrow> bool" where
  "rejected (Rejected m) = True"
| "rejected _ = False"

text \<open>A text that is empty or made of white space only.\<close>

definition blank :: "jsstring \<Rightarrow> bool" where
  "blank s = list_all isWhiteSpace s"

section \<open>The settlement engine and the creation of income entries\<close>

text \<open>
  Modelled from the spec: the server behind \<open>/settle\<close> and \<open>/salary_logs/\<close> is not among the
  sources; the page only sends it requests. The ledger below follows sections 3, 4.1 and
  4.2 of the specification. Amounts are exact rationals (section 9 asks for exact money
  arithmetic); the amount of a request is such a value or is not finite.
\<close>

datatype amount = Finite rat | NotFinite

record debt_entry =
  de_id :: int
  de_title :: jsstring
  amountOut :: rat
  amountReimbursed :: rat
  de_category :: category
  de_status :: transaction_status
  createdAt :: nat

record income_entry =
  ie_id :: int
  ie_amount :: rat
  amountUnused :: rat
  ie_month :: jsstring
  ie_source :: source
  ie_remark :: "jsstring option"
  receivedDate :: nat

record ledger =
  debts :: "debt_entry list"
  incomes :: "income_entry list"

datatype settle_error =
    InvalidAmountError
  | DebtNotFound
  | IncomeNotFound
  | ExceedsOutstandingBalance
  | ExceedsAvailableBalance

text \<open>
  Modelled from the spec: the status of section 3, recomputed from the two amounts.
\<close>

definition statusOf :: "rat \<Rightarrow> rat \<Rightarrow> transaction_status" where
  "statusOf out reimbursed =
     (if reimbursed = out then Settled
      else if reimbursed = 0 then Pending
      else PartiallySettled)"

definition findDebt :: "ledger \<Rightarrow> int \<Rightarrow> debt_entry option" where
  "findDebt L d = find (\<lambda>e. de_id e = d) (debts L)"

definition findIncome :: "ledger \<Rightarrow> int \<Rightarrow> income_entry option" where
  "findIncome L i = find (\<lambda>e. ie_id e = i) (incomes L)"

text \<open>The entry that a lookup finds is the one that an update rewrites.\<close>

fun updateFirst :: "('a \<Rightarrow> bool) \<Rightarrow> ('a \<Rightarrow> 'a) \<Rightarrow> 'a list \<Rightarrow> 'a list" where
  "updateFirst P f [] = []"
| "updateFirst P f (x # xs) = (if P x then f x # xs else x # updateFirst P f xs)"

text \<open>
  Modelled from the spec: \<open>settle(debtEntryId, incomeEntryId, amount)\<close> of section 4.1, the
  five preconditions in their order and the effect on the two entries. The result is the
  error, if any, and the ledger afterwards.
\<close>

definition settle :: "ledger \<Rightarrow> int \<Rightarrow> int \<Rightarrow> amount \<Rightarrow> settle_error option \<times> ledger" where
  "settle L d i a =
     (case a of
        Finite x \<Rightarrow>
          if \<not> 0 < x then (Some InvalidAmountError, L)
          else
            (case findDebt L d of
               None \<Rightarrow> (Some DebtNotFound, L)
             | Some de \<Rightarrow>
                 (case findIncome L i of
                    None \<Rightarrow> (Some IncomeNotFound, L)
                  | Some ie \<Rightarrow>
                      if \<not> x \<le> amountOut de - amountReimbursed de
                      then (Some ExceedsOutstandingBalance, L)
                      else if \<not> x \<le> amountUnused ie
                      then (Some ExceedsAvailableBalance, L)
                      else
                        (None,
                         L\<lparr>debts :=
                             updateFirst (\<lambda>e. de_id e = d)
                               (\<lambda>e. e\<lparr>amountReimbursed := amountReimbursed e + x,
                                      de_status := statusOf (amountOut e) (amountReimbursed e + x)\<rparr>)
                               (debts L),
                           incomes :=
                             updateFirst (\<lambda>e. ie_id e = i)
                               (\<lambda>e. e\<lparr>amountUnused := amountUnused e - x\<rparr>)
                               (incomes L)\<rparr>)))
      | NotFinite \<Rightarrow> (Some InvalidAmountError, L))"

text \<open>
  The total that the specification states as unchanged by a settlement: the outstanding
  debt, \<open>sum(amountOut) - sum(amountReimbursed)\<close>, plus the unallocated income,
  \<open>sum(amountUnused)\<close>.
\<close>

definition statedTotal :: "ledger \<Rightarrow> rat" where
  "statedTotal L =
     (sum_list (map amountOut (debts L)) - sum_list (map amountReimbursed (debts L)))
     + sum_list (map amountUnused (incomes L))"

text \<open>The outstanding debt less the unallocated income.\<close>

definition netOutstanding :: "ledger \<Rightarrow> rat" where
  "netOutstanding L =
     (sum_list (map amountOut (debts L)) - sum_list (map amountReimbursed (debts L)))
     - sum_list (map amountUnused (incomes L))"

text \<open>
  Modelled from the spec: the creation of an income entry of section 4.2 from the request
  that the page sends, with the identifier and the date that the store gives it: it
  requires \<open>amount > 0\<close> and a month, and initialises \<open>amountUnused = amount\<close>. The entry
  is in the type in which the page receives it, \<open>SalaryLog\<close>.
\<close>

datatype lifecycle_error = ValidationError

definition createIncomeEntry ::
  "int \<Rightarrow> jsstring \<Rightarrow> salary_log_create \<Rightarrow> lifecycle_error + salary_log" where
  "createIncomeEntry newId now r =
     (if js_gt (sc_amount r) (Fin 0) \<and> sc_month r \<noteq> []
      then Inr \<lparr>sl_id = newId, sl_amount = sc_amount r, sl_amount_unused = sc_amount r,
                sl_month = sc_month r, sl_source = sc_source r, sl_remark = sc_remark r,
                sl_received_date = now\<rparr>
      else Inl ValidationError)"

section \<open>Example data\<close>

text \<open>
  A pending, a partially settled and a settled debt entry of 300, and two income entries.
\<close>

definition pendingAdvance :: transaction where
  "pendingAdvance =
     \<lparr>tx_id = 1, tx_title = js ''fuel'', tx_amount_out = whole 300,
      tx_amount_reimbursed = Fin 0, tx_category = Work, tx_status = Pending,
      tx_created_at = js ''2024-05-01''\<rparr>"

definition partialAdvance :: transaction where
  "partialAdvance =
     \<lparr>tx_id = 2, tx_title = js ''hotel'', tx_amount_out = whole 300,
      tx_amount_reimbursed = whole 200, tx_category = Work, tx_status = PartiallySettled,
      tx_created_at = js ''2024-05-02''\<rparr>"

definition settledAdvance :: transaction where
  "settledAdvance =
     \<lparr>tx_id = 3, tx_title = js ''taxi'', tx_amount_out = whole 300,
      tx_amount_reimbursed = whole 300, tx_category = Personal, tx_status = Settled,
      tx_created_at = js ''2024-05-03''\<rparr>"

definition payment :: salary_log where
  "payment =
     \<lparr>sl_id = 1, sl_amount = whole 500, sl_amount_unused = whole 500,
      sl_month = js ''2024-05'', sl_source = Salary, sl_remark = Null, sl_received_date = js ''2024-05-31''\<rparr>"

definition smallPayment :: salary_log where
  "smallPayment =
     \<lparr>sl_id = 2, sl_amount = whole 100, sl_amount_unused = whole 100,
      sl_month = js ''2024-06'', sl_source = Reimbursement, sl_remark = Value (js ''refund''),
      sl_received_date = js ''2024-06-30''\<rparr>"

text \<open>An income entry whose balance is used up.\<close>

definition spentPayment :: salary_log where
  "spentPayment =
     \<lparr>sl_id = 5, sl_amount = whole 100, sl_amount_unused = Fin 0, sl_month = js ''2024-04'',
      sl_source = Other, sl_remark = Null, sl_received_date = js ''2024-04-30''\<rparr>"

text \<open>The page as it is first rendered: the initial values of its \<open>useState\<close> variables.\<close>

definition initialPage :: page where
  "initialPage =
     \<lparr>selectedTransaction = None, selectedSalaryId = [], amount = [],
      transactionsData = None, salaryLogsData = None,
      transactionForm = \<lparr>tc_title = [], tc_amount_out = Fin 0, tc_category = Work\<rparr>,
      salaryForm = \<lparr>sc_amount = Fin 0, sc_month = [], sc_source = Salary, sc_remark = Value []\<rparr>,
      editingTransaction = None,
      editForm = \<lparr>tu_title = [], tu_amount_out = Fin 0, tu_category = Work\<rparr>\<rparr>"

text \<open>
  A debt entry of \<open>0.3\<close>, the double nearest to three tenths, and one of \<open>10^16\<close> of which
  \<open>1\<close> is reimbursed.
\<close>

definition dimeAdvance :: transaction where
  "dimeAdvance =
     \<lparr>tx_id = 4, tx_title = js ''stamp'', tx_amount_out = Fin (5404319552844595 * 2 ^ 1020),
      tx_amount_reimbursed = Fin 0, tx_category = Work, tx_status = Pending,
      tx_created_at = js ''2024-05-04''\<rparr>"

definition largeAdvance :: transaction where
  "largeAdvance =
     \<lparr>tx_id = 5, tx_title = js ''plant'', tx_amount_out = whole 10000000000000000,
      tx_amount_reimbursed = whole 1, tx_category = Work, tx_status = PartiallySettled,
      tx_created_at = js ''2024-05-05''\<rparr>"

text \<open>The ledger of the first end-to-end scenario of the specification.\<close>

definition scenarioLedger :: ledger where
  "scenarioLedger =
     \<lparr>debts = [\<lparr>de_id = 1, de_title = js ''fare'', amountOut = 300, amountReimbursed = 0,
                 de_category = Work, de_status = Pending, createdAt = 0\<rparr>],
      incomes = [\<lparr>ie_id = 1, ie_amount = 500, amountUnused = 500, ie_month = js ''2024-05'',
                  ie_source = Salary, ie_remark = None, receivedDate = 1\<rparr>]\<rparr>"

section \<open>Facts about numbers, strings and the example data\<close>

subsection \<open>Rounding\<close>

lemma bits_0: "bits 0 = 0"
  by (subst bits.simps) simp

lemma bits_pos: "0 < n \<Longrightarrow> bits n = Suc (bits (n div 2))"
  by (subst bits.simps) simp

text \<open>A number of \<open>b\<close> binary digits is at least \<open>2^(b-1)\<close> and below \<open>2^b\<close>.\<close>

lemma bits_lower: "0 < n \<Longrightarrow> 2 ^ (bits n - 1) \<le> n"
proof (induction n rule: bits.induct)
  case (1 n)
  show ?case
  proof (cases "n div 2 = 0")
    case True
    with "1.prems" show ?thesis
      by (simp add: bits_pos bits_0)
  next
    case False
    with "1.prems" "1.IH" have ih: "2 ^ (bits (n div 2) - 1) \<le> n div 2"
      by simp
    from False have "0 < bits (n div 2)"
      by (simp add: bits_pos)
    then have "bits n - 1 = Suc (bits (n div 2) - 1)"
      using "1.prems" by (simp add: bits_pos [of n])
    then have "2 ^ (bits n - 1) = 2 * 2 ^ (bits (n div 2) - 1)"
      by simp
    also have "\<dots> \<le> 2 * (n div 2)"
      using ih by simp
    also have "\<dots> \<le> n"
      by simp
    finally show ?thesis .
  qed
qed

lemma bits_upper: "n < 2 ^ k \<Longrightarrow> bits n \<le> k"
proof (induction n arbitrary: k rule: bits.induct)
  case (1 n)
  show ?case
  proof (cases "n = 0")
    case True
    then show ?thesis by (simp add: bits_0)
  next
    case False
    with "1.prems" obtain j where k: "k = Suc j"
      by (cases k) auto
    with "1.prems" have "n div 2 < 2 ^ j"
      by auto
    with False "1.IH" have "bits (n div 2) \<le> j"
      by simp
    with False k show ?thesis
      by (simp add: bits_pos)
  qed
qed

lemma bits_eq:
  assumes "2 ^ k \<le> n" and "n < 2 ^ Suc k"
  shows "bits n = Suc k"
proof -
  have "bits n \<le> Suc k"
    using assms(2) by (rule bits_upper)
  moreover have "\<not> bits n \<le> k"
  proof
    assume le: "bits n \<le> k"
    from assms(1) have pos: "0 < n"
      by (metis gr0I not_le zero_less_numeral zero_less_power)
    then have "0 < bits n"
      by (simp add: bits_pos)
    have "n < 2 ^ bits n"
    proof -
      have "\<And>m. bits m \<le> j \<Longrightarrow> m < 2 ^ j" for j
      proof (induction j)
        case 0
        then show ?case
          by (cases "m = 0") (simp_all add: bits_pos)
      next
        case (Suc j)
        show ?case
        proof (cases "m = 0")
          case True
          then show ?thesis by simp
        next
          case False
          with Suc.prems have "bits (m div 2) \<le> j"
            by (simp add: bits_pos)
          then have "m div 2 < 2 ^ j"
            by (rule Suc.IH)
          then show ?thesis
            by auto
        qed
      qed
      then show ?thesis
        by blast
    qed
    also have "\<dots> \<le> 2 ^ k"
      using le by (intro power_increasing) simp_all
    finally show False
      using assms(1) by simp
  qed
  ultimately show ?thesis
    by simp
qed

lemma scale_pos: "0 < scale"
  by (simp add: scale_def)

text \<open>
  Rounding keeps the sign: a magnitude that is not zero is not rounded to zero, since every
  finite number is a multiple of the smallest double.
\<close>

lemma roundHalfEven_nonneg:
  assumes "0 \<le> P" and "0 < Q"
  shows "0 \<le> roundHalfEven P Q"
proof -
  have "0 \<le> P div (Q * 2 ^ s)" for s :: nat
    using assms by (simp add: pos_imp_zdiv_nonneg_iff)
  then show ?thesis
    by (auto simp: roundHalfEven_def Let_def)
qed

lemma power_le_of_bits:
  assumes "0 < P"
  shows "(2::int) ^ (bits (nat P) - 53) \<le> P"
proof -
  let ?s = "bits (nat P) - 53"
  have "2 ^ (bits (nat P) - 1) \<le> nat P"
    using assms by (intro bits_lower) simp
  moreover have "(2::nat) ^ ?s \<le> 2 ^ (bits (nat P) - 1)"
    by (intro power_increasing) simp_all
  ultimately have "(2::nat) ^ ?s \<le> nat P"
    by (rule order_trans [rotated])
  then have "int (2 ^ ?s) \<le> int (nat P)"
    by (simp only: of_nat_le_iff)
  with assms show ?thesis
    by simp
qed

lemma roundHalfEven_pos:
  assumes "0 < P"
  shows "0 < roundHalfEven P 1"
proof -
  have "0 < P div 2 ^ (bits (nat P) - 53)"
    using power_le_of_bits [OF assms] by (simp add: pos_imp_zdiv_pos_iff)
  then show ?thesis
    by (auto simp: roundHalfEven_def Let_def)
qed

lemma roundHalfEven_zero: "roundHalfEven 0 1 = 0"
  by (simp add: roundHalfEven_def bits_0)

text \<open>A value with at most 53 significant bits is a double, and rounds to itself.\<close>

lemma roundHalfEven_exact:
  assumes "P mod 2 ^ (bits (nat P) - 53) = 0"
  shows "roundHalfEven P 1 = P"
proof -
  have "P div 2 ^ (bits (nat P) - 53) * 2 ^ (bits (nat P) - 53) = P"
    using assms div_mult_mod_eq [of P "2 ^ (bits (nat P) - 53)"] by simp
  with assms show ?thesis
    by (simp add: roundHalfEven_def Let_def)
qed

lemma roundHalfEven_whole:
  assumes "0 \<le> n" and "n < 2 ^ 53"
  shows "roundHalfEven (n * scale) 1 = n * scale"
proof (rule roundHalfEven_exact)
  let ?P = "n * scale"
  have "?P < 2 ^ 53 * 2 ^ 1074"
    using assms by (simp add: scale_def)
  then have "nat ?P < 2 ^ (53 + 1074)"
    using assms by (simp add: power_add nat_less_iff)
  then have "bits (nat ?P) \<le> 53 + 1074"
    by (rule bits_upper)
  then have "bits (nat ?P) - 53 \<le> 1074"
    by simp
  then have "(2::int) ^ (bits (nat ?P) - 53) dvd 2 ^ 1074"
    by (rule le_imp_power_dvd)
  then have "(2::int) ^ (bits (nat ?P) - 53) dvd ?P"
    unfolding scale_def by (rule dvd_mult)
  then show "?P mod 2 ^ (bits (nat ?P) - 53) = 0"
    by (simp only: mod_eq_0_iff_dvd)
qed

lemma toDouble_zero: "toDouble neg 0 1 = Fin 0"
  by (simp add: toDouble_def roundHalfEven_zero scale_def)

lemma toDouble_whole:
  assumes "0 \<le> n" and "n < 2 ^ 53"
  shows "toDouble neg (n * scale) 1 = (if neg then whole (- n) else whole n)"
proof -
  have "n * scale < 2 ^ 1024 * scale"
  proof (rule mult_strict_right_mono)
    have "(2::int) ^ 53 < 2 ^ 1024"
      by (rule power_strict_increasing) simp_all
    with assms(2) show "n < 2 ^ 1024"
      by (rule less_trans)
  qed (rule scale_pos)
  then show ?thesis
    by (simp add: toDouble_def Let_def roundHalfEven_whole [OF assms] whole_def)
qed

lemma sub_self: "js_sub (Fin x) (Fin x) = Fin 0"
  by (simp add: toDouble_zero)

text \<open>The difference of two finite numbers is above zero exactly when the exact one is.\<close>

lemma toDouble_positive: "js_less (Fin 0) (toDouble (a < b) \<bar>a - b\<bar> 1) = (b < a)"
proof (cases "a = b")
  case True
  then show ?thesis by (simp add: toDouble_zero)
next
  case False
  show ?thesis
  proof (cases "b < a")
    case True
    then have "0 < roundHalfEven \<bar>a - b\<bar> 1"
      by (intro roundHalfEven_pos) simp
    with True show ?thesis
      by (simp add: toDouble_def Let_def)
  next
    case False
    have "0 \<le> roundHalfEven \<bar>a - b\<bar> 1"
      by (intro roundHalfEven_nonneg) simp_all
    with False \<open>a \<noteq> b\<close> show ?thesis
      by (simp add: toDouble_def Let_def)
  qed
qed

lemma sub_positive: "js_gt (js_sub (Fin a) (Fin b)) (Fin 0) = (b < a)"
  by (simp add: js_gt_def toDouble_positive)

lemma whole_simps:
  "js_less (whole a) (whole b) = (a < b)"
  "js_less (Fin 0) (whole a) = (0 < a)"
  "js_less (whole a) (Fin 0) = (a < 0)"
  "(whole a = whole b) = (a = b)"
  "(whole a = Fin 0) = (a = 0)"
  "(Fin 0 = whole a) = (a = 0)"
  using scale_pos
  by (auto simp: whole_def zero_less_mult_iff mult_less_0_iff)

lemma sub_whole:
  assumes "\<bar>a - b\<bar> < 2 ^ 53"
  shows "js_sub (whole a) (whole b) = whole (a - b)"
proof -
  have abs: "\<bar>a * scale - b * scale\<bar> = \<bar>a - b\<bar> * scale"
    using scale_pos by (simp add: abs_mult flip: left_diff_distrib)
  have less: "(a * scale < b * scale) = (a < b)"
    using scale_pos by simp
  have "toDouble (a < b) (\<bar>a - b\<bar> * scale) 1 = (if a < b then whole (- \<bar>a - b\<bar>) else whole \<bar>a - b\<bar>)"
    using assms by (intro toDouble_whole) simp_all
  then show ?thesis
    by (simp add: whole_def abs less)
qed

lemma roundHalfEven_double:
  assumes "0 \<le> m" and "m < 2 ^ 53"
  shows "roundHalfEven (m * 2 ^ e) 1 = m * 2 ^ e"
proof (rule roundHalfEven_exact)
  let ?P = "m * 2 ^ e"
  have "?P < 2 ^ 53 * 2 ^ e"
    using assms by simp
  then have "nat ?P < 2 ^ (53 + e)"
    using assms by (simp add: power_add nat_less_iff)
  then have "bits (nat ?P) \<le> 53 + e"
    by (rule bits_upper)
  then have "bits (nat ?P) - 53 \<le> e"
    by simp
  then have "(2::int) ^ (bits (nat ?P) - 53) dvd 2 ^ e"
    by (rule le_imp_power_dvd)
  then have "(2::int) ^ (bits (nat ?P) - 53) dvd ?P"
    by (rule dvd_mult)
  then show "?P mod 2 ^ (bits (nat ?P) - 53) = 0"
    by (simp only: mod_eq_0_iff_dvd)
qed

lemma sub_zero:
  assumes "0 \<le> m" and "m < 2 ^ 53" and "e \<le> 2045"
  shows "js_sub (Fin (m * 2 ^ e)) (Fin 0) = Fin (m * 2 ^ e)"
proof -
  have "m * 2 ^ e < 2 ^ 53 * 2 ^ e"
    using assms by simp
  also have "\<dots> = 2 ^ (53 + e)"
    by (simp add: power_add)
  also have "\<dots> \<le> (2::int) ^ (1024 + 1074)"
    using assms(3) by (intro power_increasing) simp_all
  also have "\<dots> = 2 ^ 1024 * scale"
    by (simp only: power_add scale_def)
  finally have "\<not> 2 ^ 1024 * scale \<le> m * 2 ^ e"
    by simp
  moreover have "0 \<le> m * 2 ^ e"
    using assms(1) by simp
  ultimately show ?thesis
    using roundHalfEven_double [OF assms(1,2), of e]
    by (simp add: toDouble_def Let_def)
qed

lemma whole_zero: "whole 0 = Fin 0"
  by (simp add: whole_def)

lemma isNaN_whole: "isNaN (whole a) = False"
  by (simp add: whole_def)

lemma sub_whole_zero:
  assumes "\<bar>a\<bar> < 2 ^ 53"
  shows "js_sub (whole a) (Fin 0) = whole a"
  using sub_whole [of a 0] assms by (simp add: whole_zero)

text \<open>More facts about the doubles of whole numbers.\<close>

lemma whole_more:
  "js_less (whole a) PInf"
  "\<not> js_less PInf (whole a)"
  "whole a \<noteq> PInf"
  "PInf \<noteq> whole a"
  by (simp_all add: whole_def)

text \<open>The amount check of the handlers fails exactly when the amount is not above zero.\<close>

lemma amount_invalid_iff: "(isNaN n \<or> js_le n (Fin 0)) = (\<not> js_gt n (Fin 0))"
  by (cases n) (auto simp: js_le_def js_gt_def)

subsection \<open>Values of \<open>Number\<close>\<close>

lemma Number_empty: "Number [] = Fin 0"
  by (simp add: Number_def trim_def)

lemma js_not_empty: "js (c # cs) \<noteq> []"
  by (simp add: js_def)

lemmas number_defs =
  Number_def trim_def js_def isWhiteSpace_def nonDecimalLiteral_def strDecimalLiteral_def
  unsignedDecimal_def exponentPart_def isDigit_def digitsValue_def digitValue_def

lemma toDouble_one: "toDouble neg scale 1 = (if neg then whole (- 1) else whole 1)"
  using toDouble_whole [of 1 neg] by simp

lemma Number_examples:
  "Number (js ''0'') = Fin 0"
  "Number (js ''1'') = whole 1"
  "Number (js ''5'') = whole 5"
  "Number (js ''250'') = whole 250"
  "Number (js ''abc'') = NaN"
  "Number (js ''-20'') = whole (- 20)"
  "Number (js ''Infinity'') = PInf"
  by (simp_all add: number_defs toDouble_whole toDouble_one toDouble_zero)

text \<open>
  Two roundings: \<open>Number("0.3")\<close> is the double nearest to three tenths,
  \<open>5404319552844595 * 2^-54\<close>; and \<open>10^16 - 1\<close>, which is no double, is \<open>10^16\<close>.
\<close>

lemma Number_three_tenths: "Number (js ''0.3'') = Fin (5404319552844595 * 2 ^ 1020)"
proof -
  have parse: "Number (js ''0.3'') = toDouble False (3 * scale) 10"
    by (simp add: number_defs)
  have "(2::nat) ^ 1072 \<le> nat (3 * scale div 10)" "nat (3 * scale div 10) < 2 ^ Suc 1072"
    by (simp_all add: scale_def)
  then have b: "bits (nat (3 * scale div 10)) = Suc 1072"
    by (rule bits_eq)
  have "roundHalfEven (3 * scale) 10 = 5404319552844595 * 2 ^ 1020"
    by (simp add: roundHalfEven_def b Let_def) (simp add: scale_def)
  then show ?thesis
    by (simp add: parse toDouble_def scale_def)
qed

lemma sub_large: "js_sub (whole 10000000000000000) (whole 1) = whole 10000000000000000"
proof -
  have abs: "\<bar>10000000000000000 * scale - 1 * scale\<bar> = 9999999999999999 * scale"
    using scale_pos by simp
  have "(2::nat) ^ 1127 \<le> nat (9999999999999999 * scale)"
    "nat (9999999999999999 * scale) < 2 ^ Suc 1127"
    by (simp_all add: scale_def)
  then have b: "bits (nat (9999999999999999 * scale)) = Suc 1127"
    by (rule bits_eq)
  have "roundHalfEven (9999999999999999 * scale) 1 = 10000000000000000 * scale"
    by (simp add: roundHalfEven_def b Let_def) (simp add: scale_def)
  then show ?thesis
    by (simp add: whole_def abs toDouble_def) (simp add: scale_def)
qed

subsection \<open>\<open>trim\<close>\<close>

text \<open>\<open>trim\<close> gives the empty text exactly on a blank text.\<close>

lemma trim_empty_iff: "(trim s = []) = blank s"
proof -
  have "(trim s = []) = (\<forall>x \<in> set (dropWhile isWhiteSpace s). isWhiteSpace x)"
    by (simp add: trim_def)
  also have "\<dots> = (dropWhile isWhiteSpace s = [])"
  proof
    assume all: "\<forall>x \<in> set (dropWhile isWhiteSpace s). isWhiteSpace x"
    show "dropWhile isWhiteSpace s = []"
    proof (rule ccontr)
      assume ne: "dropWhile isWhiteSpace s \<noteq> []"
      then have "\<not> isWhiteSpace (hd (dropWhile isWhiteSpace s))"
        by (rule hd_dropWhile)
      moreover from ne have "hd (dropWhile isWhiteSpace s) \<in> set (dropWhile isWhiteSpace s)"
        by simp
      ultimately show False
        using all by blast
    qed
  next
    assume "dropWhile isWhiteSpace s = []"
    then show "\<forall>x \<in> set (dropWhile isWhiteSpace s). isWhiteSpace x"
      by (simp only: list.set ball_empty)
  qed
  also have "\<dots> = blank s"
    by (simp add: blank_def list_all_iff)
  finally show ?thesis .
qed

text \<open>A text is white space, its trimmed text, and white space again.\<close>

lemma trim_decomposition:
  "s = takeWhile isWhiteSpace s @ trim s
         @ rev (takeWhile isWhiteSpace (rev (dropWhile isWhiteSpace s)))"
proof -
  let ?d = "dropWhile isWhiteSpace s"
  have "rev (takeWhile isWhiteSpace (rev ?d) @ dropWhile isWhiteSpace (rev ?d)) = rev (rev ?d)"
    by (simp only: takeWhile_dropWhile_id)
  then have "rev (dropWhile isWhiteSpace (rev ?d)) @ rev (takeWhile isWhiteSpace (rev ?d)) = ?d"
    by (simp only: rev_append rev_rev_ident)
  then have "?d = trim s @ rev (takeWhile isWhiteSpace (rev ?d))"
    by (simp only: trim_def)
  moreover have "s = takeWhile isWhiteSpace s @ ?d"
    by simp
  ultimately show ?thesis
    by simp
qed

lemma blank_takeWhile: "blank (takeWhile isWhiteSpace s)"
  by (auto simp: blank_def list_all_iff dest: set_takeWhileD)

lemma blank_rev: "blank (rev s) = blank s"
  by (simp add: blank_def list_all_iff)

text \<open>A trimmed text that is not empty neither starts nor ends with white space.\<close>

lemma trim_ends:
  assumes "trim s \<noteq> []"
  shows "\<not> isWhiteSpace (hd (trim s)) \<and> \<not> isWhiteSpace (last (trim s))"
proof -
  let ?d = "dropWhile isWhiteSpace s"
  let ?e = "dropWhile isWhiteSpace (rev ?d)"
  from assms have e: "?e \<noteq> []"
    by (simp add: trim_def)
  have d: "?d \<noteq> []"
  proof
    assume "?d = []"
    then have "?e = []"
      by (simp only: rev.simps dropWhile.simps)
    with e show False ..
  qed
  have "last (trim s) = hd ?e"
    using e by (simp add: trim_def last_rev)
  moreover have "\<not> isWhiteSpace (hd ?e)"
    using e by (rule hd_dropWhile)
  moreover have "hd (trim s) = hd ?d"
  proof -
    have "?d = trim s @ rev (takeWhile isWhiteSpace (rev ?d))"
      using trim_decomposition [of s] by (metis same_append_eq takeWhile_dropWhile_id)
    with assms show ?thesis
      by (metis hd_append2)
  qed
  moreover have "\<not> isWhiteSpace (hd ?d)"
    using d by (rule hd_dropWhile)
  ultimately show ?thesis
    by simp
qed

subsection \<open>The example data\<close>

lemma String_examples:
  "String 1 = js ''1''"
  "String 2 = js ''2''"
  "String 5 = js ''5''"
  by code_simp+

lemma js_examples:
  "js ''1'' \<noteq> js ''2''"
  "js ''2'' \<noteq> js ''1''"
  "js ''2'' \<noteq> js ''5''"
  "js ''5'' \<noteq> js ''2''"
  "js ''1'' \<noteq> js ''5''"
  "js ''5'' \<noteq> js ''1''"
  by (simp_all add: js_def)

lemma trim_examples:
  "trim (js '' hotel '') = js ''hotel''"
  "trim (js '' bonus '') = js ''bonus''"
  "trim (js ''fuel'') = js ''fuel''"
  by (simp_all add: trim_def js_def isWhiteSpace_def)

lemma blank_examples:
  "blank (js ''  '')"
  "\<not> blank (js '' hotel '')"
  "\<not> blank (js '' bonus '')"
  "\<not> blank (js ''fuel'')"
  by (simp_all add: blank_def js_def isWhiteSpace_def)

lemmas example_defs =
  pendingAdvance_def partialAdvance_def settledAdvance_def dimeAdvance_def largeAdvance_def
  payment_def smallPayment_def spentPayment_def initialPage_def dataOrEmpty_def

lemmas page_defs =
  example_defs availableSalaryLogs_def selectedSalary_def remainingDebt_def js_gt_def js_le_def
  Number_examples String_examples js_examples js_not_empty whole_simps whole_more sub_whole
  sub_whole_zero isNaN_whole

text \<open>
  The outstanding balance of the entry of \<open>10^16\<close> of which \<open>1\<close> is reimbursed is \<open>10^16\<close>.
\<close>

lemma remainingDebt_large:
  "remainingDebt (initialPage\<lparr>selectedTransaction := Some largeAdvance\<rparr>)
     = whole 10000000000000000"
  by (simp add: remainingDebt_def largeAdvance_def sub_large)

subsection \<open>The lookup of the selected income entry\<close>

lemma find_available:
  "find (\<lambda>item. String (sl_id item) = sid)
     (filter (\<lambda>item. js_gt (sl_amount_unused item) (Fin 0)) logs) = incomeOfId sid logs"
  by (induction logs) simp_all

lemma selectedSalary_incomeOfId:
  "selectedSalary p = incomeOfId (selectedSalaryId p) (dataOrEmpty (salaryLogsData p))"
  by (simp add: selectedSalary_def availableSalaryLogs_def find_available)

lemma incomeOfId_None:
  assumes "\<forall>item \<in> set logs.
             js_gt (sl_amount_unused item) (Fin 0) \<longrightarrow> String (sl_id item) \<noteq> sid"
  shows "incomeOfId sid logs = None"
  using assms by (induction logs) auto

section \<open>The settlement engine\<close>

lemma find_updateFirst:
  assumes "find P xs = Some e" and "P (f e)"
  shows "find P (updateFirst P f xs) = Some (f e)"
  using assms by (induction xs) (auto split: if_splits)

lemma sum_list_updateFirst:
  fixes g :: "'a \<Rightarrow> rat"
  assumes "find P xs = Some e"
  shows "sum_list (map g (updateFirst P f xs)) = sum_list (map g xs) - g e + g (f e)"
  using assms by (induction xs) (auto split: if_splits)

lemma sum_list_updateFirst_same:
  fixes g :: "'a \<Rightarrow> rat"
  assumes "\<And>x. g (f x) = g x"
  shows "sum_list (map g (updateFirst P f xs)) = sum_list (map g xs)"
  using assms by (induction xs) auto

lemma settle_failure_unchanged:
  assumes "settle L d i a = (Some err, L')"
  shows "L' = L"
  using assms
  by (auto simp: settle_def split: amount.splits option.splits if_splits)

lemma settle_success:
  assumes "settle L d i a = (None, L')"
  shows "\<exists>x de ie. a = Finite x \<and> 0 < x
           \<and> findDebt L d = Some de \<and> findIncome L i = Some ie
           \<and> x \<le> amountOut de - amountReimbursed de \<and> x \<le> amountUnused ie
           \<and> L' = L\<lparr>debts :=
                       updateFirst (\<lambda>e. de_id e = d)
                         (\<lambda>e. e\<lparr>amountReimbursed := amountReimbursed e + x,
                                de_status := statusOf (amountOut e) (amountReimbursed e + x)\<rparr>)
                         (debts L),
                     incomes :=
                       updateFirst (\<lambda>e. ie_id e = i)
                         (\<lambda>e. e\<lparr>amountUnused := amountUnused e - x\<rparr>)
                         (incomes L)\<rparr>"
  using assms
  by (auto simp: settle_def split: amount.splits option.splits if_splits)

text \<open>
  C1, as the specification states it, fails on its own first scenario: the settlement of
  300 succeeds, and the stated total, the outstanding debt plus the unallocated income,
  goes from 800 to 200.
\<close>

theorem stated_total_counterexample:
  "fst (settle scenarioLedger 1 1 (Finite 300)) = None
   \<and> statedTotal scenarioLedger = 800
   \<and> statedTotal (snd (settle scenarioLedger 1 1 (Finite 300))) = 200"
  by (simp add: settle_def scenarioLedger_def findDebt_def findIncome_def statusOf_def
        statedTotal_def)

text \<open>
  C1, amended. A successful \<open>settle(d, i, a)\<close> has a finite amount \<open>a > 0\<close>, adds exactly
  \<open>a\<close> to \<open>amountReimbursed\<close> of the debt entry \<open>d\<close> and takes exactly \<open>a\<close> from
  \<open>amountUnused\<close> of the income entry \<open>i\<close>; a failed one leaves the ledger as it was, so
  both updates apply or neither does. The outstanding debt less the unallocated income is
  unchanged by a successful settlement; the outstanding debt plus the unallocated income
  goes down by \<open>2 * a\<close>.
\<close>

theorem settle_moves_balance:
  "(settle L d i a = (None, L') \<longrightarrow>
      (\<exists>x de ie. a = Finite x \<and> 0 < x
         \<and> findDebt L d = Some de \<and> findIncome L i = Some ie
         \<and> findDebt L' d =
             Some (de\<lparr>amountReimbursed := amountReimbursed de + x,
                      de_status := statusOf (amountOut de) (amountReimbursed de + x)\<rparr>)
         \<and> findIncome L' i = Some (ie\<lparr>amountUnused := amountUnused ie - x\<rparr>)
         \<and> netOutstanding L' = netOutstanding L
         \<and> statedTotal L' = statedTotal L - 2 * x))
   \<and> (\<forall>err. settle L d i a = (Some err, L') \<longrightarrow> L' = L)"
proof (intro conjI impI allI)
  assume ok: "settle L d i a = (None, L')"
  then obtain x de ie where a: "a = Finite x" and pos: "0 < x"
    and de: "findDebt L d = Some de" and ie: "findIncome L i = Some ie"
    and L': "L' = L\<lparr>debts :=
                       updateFirst (\<lambda>e. de_id e = d)
                         (\<lambda>e. e\<lparr>amountReimbursed := amountReimbursed e + x,
                                de_status := statusOf (amountOut e) (amountReimbursed e + x)\<rparr>)
                         (debts L),
                     incomes :=
                       updateFirst (\<lambda>e. ie_id e = i)
                         (\<lambda>e. e\<lparr>amountUnused := amountUnused e - x\<rparr>)
                         (incomes L)\<rparr>"
    using settle_success by blast
  have fd: "find (\<lambda>e. de_id e = d) (debts L) = Some de"
    using de by (simp add: findDebt_def)
  have fi: "find (\<lambda>e. ie_id e = i) (incomes L) = Some ie"
    using ie by (simp add: findIncome_def)
  have idd: "de_id de = d"
    using fd by (auto simp: find_Some_iff)
  have idi: "ie_id ie = i"
    using fi by (auto simp: find_Some_iff)
  have d': "findDebt L' d =
             Some (de\<lparr>amountReimbursed := amountReimbursed de + x,
                      de_status := statusOf (amountOut de) (amountReimbursed de + x)\<rparr>)"
    unfolding findDebt_def L' using find_updateFirst [OF fd] idd by simp
  have i': "findIncome L' i = Some (ie\<lparr>amountUnused := amountUnused ie - x\<rparr>)"
    unfolding findIncome_def L' using find_updateFirst [OF fi] idi by simp
  have out: "sum_list (map amountOut (debts L')) = sum_list (map amountOut (debts L))"
    unfolding L' by (simp add: sum_list_updateFirst_same)
  have reimb: "sum_list (map amountReimbursed (debts L'))
               = sum_list (map amountReimbursed (debts L)) + x"
    unfolding L' by (simp add: sum_list_updateFirst [OF fd])
  have unused: "sum_list (map amountUnused (incomes L'))
                = sum_list (map amountUnused (incomes L)) - x"
    unfolding L' by (simp add: sum_list_updateFirst [OF fi])
  have net: "netOutstanding L' = netOutstanding L"
    by (simp add: netOutstanding_def out reimb unused)
  have total: "statedTotal L' = statedTotal L - 2 * x"
    by (simp add: statedTotal_def out reimb unused)
  from a pos de ie d' i' net total
  show "\<exists>x de ie. a = Finite x \<and> 0 < x
         \<and> findDebt L d = Some de \<and> findIncome L i = Some ie
         \<and> findDebt L' d =
             Some (de\<lparr>amountReimbursed := amountReimbursed de + x,
                      de_status := statusOf (amountOut de) (amountReimbursed de + x)\<rparr>)
         \<and> findIncome L' i = Some (ie\<lparr>amountUnused := amountUnused ie - x\<rparr>)
         \<and> netOutstanding L' = netOutstanding L
         \<and> statedTotal L' = statedTotal L - 2 * x"
    by blast
next
  fix err
  assume "settle L d i a = (Some err, L')"
  then show "L' = L"
    by (rule settle_failure_unchanged)
qed

theorem settle_moves_balance_witness:
  "settle scenarioLedger 1 1 (Finite 300) =
     (None,
      \<lparr>debts = [\<lparr>de_id = 1, de_title = js ''fare'', amountOut = 300, amountReimbursed = 300,
                  de_category = Work, de_status = Settled, createdAt = 0\<rparr>],
       incomes = [\<lparr>ie_id = 1, ie_amount = 500, amountUnused = 200, ie_month = js ''2024-05'',
                   ie_source = Salary, ie_remark = None, receivedDate = 1\<rparr>]\<rparr>)
   \<and> netOutstanding (snd (settle scenarioLedger 1 1 (Finite 300))) = netOutstanding scenarioLedger
   \<and> statedTotal (snd (settle scenarioLedger 1 1 (Finite 300))) = statedTotal scenarioLedger - 2 * 300"
proof -
  have run: "settle scenarioLedger 1 1 (Finite 300) =
     (None,
      \<lparr>debts = [\<lparr>de_id = 1, de_title = js ''fare'', amountOut = 300, amountReimbursed = 300,
                  de_category = Work, de_status = Settled, createdAt = 0\<rparr>],
       incomes = [\<lparr>ie_id = 1, ie_amount = 500, amountUnused = 200, ie_month = js ''2024-05'',
                   ie_source = Salary, ie_remark = None, receivedDate = 1\<rparr>]\<rparr>)"
    by (simp add: settle_def scenarioLedger_def findDebt_def findIncome_def statusOf_def)
  then have "settle scenarioLedger 1 1 (Finite 300) = (None, snd (settle scenarioLedger 1 1 (Finite 300)))"
    by simp
  with settle_moves_balance [of scenarioLedger 1 1 "Finite 300" "snd (settle scenarioLedger 1 1 (Finite 300))"]
  have "netOutstanding (snd (settle scenarioLedger 1 1 (Finite 300))) = netOutstanding scenarioLedger
        \<and> statedTotal (snd (settle scenarioLedger 1 1 (Finite 300))) = statedTotal scenarioLedger - 2 * 300"
    by auto
  with run show ?thesis
    by blast
qed

section \<open>The two filters for unsettled entries\<close>

lemma outstanding_iff_unsettled:
  assumes "status_invariant t"
  shows "js_gt (js_sub (tx_amount_out t) (tx_amount_reimbursed t)) (Fin 0)
         = (tx_status t \<noteq> Settled)"
proof (cases "tx_amount_reimbursed t")
  case NaN
  with assms show ?thesis by (simp add: status_invariant_def js_le_def)
next
  case PInf
  with assms show ?thesis
    by (cases "tx_amount_out t") (auto simp: status_invariant_def js_le_def js_eq_def js_gt_def)
next
  case NInf
  with assms show ?thesis by (simp add: status_invariant_def js_le_def)
next
  case (Fin r)
  note reimbursed = this
  show ?thesis
  proof (cases "tx_amount_out t")
    case (Fin out)
    have "js_gt (js_sub (Fin out) (Fin r)) (Fin 0) = (r < out)"
      by (rule sub_positive)
    moreover from assms reimbursed Fin
    have "r \<le> out" and "(tx_status t = Settled) = (r = out)"
      by (auto simp: status_invariant_def js_le_def js_eq_def)
    ultimately show ?thesis
      using reimbursed Fin by auto
  qed (use assms reimbursed in \<open>auto simp: status_invariant_def js_le_def js_eq_def js_gt_def\<close>)
qed

text \<open>
  C5. On every list of debt entries that satisfy the status invariant, the filter by an
  outstanding balance above zero (\<open>amount_out - amount_reimbursed > 0\<close>, the first revision
  of the page) and the filter by a status other than settled (the later revisions) select
  the same entries, in the same order.
\<close>

theorem unsettled_filters_agree:
  assumes "\<forall>t \<in> set (dataOrEmpty (transactionsData p)). status_invariant t"
  shows "unsettledTransactions_balance p = unsettledTransactions p"
  unfolding unsettledTransactions_balance_def unsettledTransactions_def
  using assms by (intro filter_cong) (auto simp: outstanding_iff_unsettled)

theorem unsettled_filters_agree_witness:
  "status_invariant pendingAdvance \<and> status_invariant settledAdvance
   \<and> status_invariant partialAdvance
   \<and> unsettledTransactions_balance
        (initialPage\<lparr>transactionsData := Some [pendingAdvance, settledAdvance, partialAdvance]\<rparr>)
     = unsettledTransactions
        (initialPage\<lparr>transactionsData := Some [pendingAdvance, settledAdvance, partialAdvance]\<rparr>)
   \<and> unsettledTransactions
        (initialPage\<lparr>transactionsData := Some [pendingAdvance, settledAdvance, partialAdvance]\<rparr>)
     = [pendingAdvance, partialAdvance]"
proof -
  let ?p = "initialPage\<lparr>transactionsData := Some [pendingAdvance, settledAdvance, partialAdvance]\<rparr>"
  have each: "status_invariant pendingAdvance \<and> status_invariant settledAdvance
              \<and> status_invariant partialAdvance"
    by (simp add: example_defs status_invariant_def js_le_def js_eq_def whole_simps isNaN_whole)
  then have inv: "\<forall>t \<in> set (dataOrEmpty (transactionsData ?p)). status_invariant t"
    by (simp add: initialPage_def dataOrEmpty_def)
  have sel: "unsettledTransactions ?p = [pendingAdvance, partialAdvance]"
    by (simp add: example_defs unsettledTransactions_def)
  from each sel unsettled_filters_agree [OF inv] show ?thesis
    by blast
qed

section \<open>The checks of a settle submission\<close>

text \<open>
  C2, as stated, fails when a debt entry is selected and the form is otherwise empty: the
  amount is not valid and no income entry is selected. In the stated order the amount
  comes first, and its error would be reported; \<open>handleSubmit\<close> reports that an income entry
  must be selected.
\<close>

theorem stated_order_counterexample:
  "firstFailure statedChecks (initialPage\<lparr>selectedTransaction := Some pendingAdvance\<rparr>)
     = Some (Rejected InvalidAmount)
   \<and> handleSubmit (initialPage\<lparr>selectedTransaction := Some pendingAdvance\<rparr>)
     = Rejected SelectIncome"
  by (simp add: statedChecks_def amountCheck_def handleSubmit_def initialPage_def)

text \<open>
  C2, amended. \<open>handleSubmit\<close> makes five checks in this order: a debt entry is selected
  (if not, it returns with no message); an income entry is selected (the identifier is not
  empty); the amount is not empty, not NaN and above zero; the amount is at most the
  outstanding balance \<open>amount_out - amount_reimbursed\<close>; the amount is at most
  \<open>amount_unused\<close> of the first entry of the list that has a balance left and the selected
  identifier, when there is one. What it does is the outcome of the earliest failing check
  in that order, and the five outcomes are distinct; when no check fails it sends the
  request.
\<close>

theorem handleSubmit_first_failure:
  "handleSubmit p =
     (case firstFailure submitChecks p of
        Some outcome \<Rightarrow> outcome
      | None \<Rightarrow> Mutate (submitRequest p))
   \<and> distinct (map snd submitChecks)"
proof
  show "handleSubmit p =
     (case firstFailure submitChecks p of
        Some outcome \<Rightarrow> outcome
      | None \<Rightarrow> Mutate (submitRequest p))"
  proof (cases "selectedTransaction p")
    case None
    then show ?thesis
      by (simp add: handleSubmit_def submitChecks_def debtCheck_def)
  next
    case (Some t)
    then show ?thesis
      by (simp add: handleSubmit_def submitChecks_def debtCheck_def incomeCheck_def
            amountCheck_def outstandingCheck_def unusedCheck_def submitRequest_def Let_def
            selectedSalary_incomeOfId)
  qed
  show "distinct (map snd submitChecks)"
    by (simp add: submitChecks_def debtCheck_def incomeCheck_def amountCheck_def
          outstandingCheck_def unusedCheck_def)
qed

text \<open>
  Three submissions against a list of two income entries, of 100 and of 500: 250 from the
  second entry is sent; 250 from the first exceeds its balance; and \<open>0.3\<close> typed against
  the debt entry of \<open>0.3\<close> is sent, as the amount and the outstanding balance are the same
  double.
\<close>

theorem handleSubmit_first_failure_witness:
  "handleSubmit
     (initialPage\<lparr>selectedTransaction := Some pendingAdvance, selectedSalaryId := js ''1'',
        amount := js ''250'', salaryLogsData := Some [smallPayment, payment]\<rparr>)
     = Mutate \<lparr>rq_transaction_id = 1, rq_salary_log_id = whole 1, rq_amount = whole 250\<rparr>
   \<and> handleSubmit
     (initialPage\<lparr>selectedTransaction := Some pendingAdvance, selectedSalaryId := js ''2'',
        amount := js ''250'', salaryLogsData := Some [smallPayment, payment]\<rparr>)
     = Rejected ExceedsAvailable
   \<and> handleSubmit
     (initialPage\<lparr>selectedTransaction := Some dimeAdvance, selectedSalaryId := js ''1'',
        amount := js ''0.3'', salaryLogsData := Some [smallPayment, payment]\<rparr>)
     = Mutate \<lparr>rq_transaction_id = 4, rq_salary_log_id = whole 1,
               rq_amount = Fin (5404319552844595 * 2 ^ 1020)\<rparr>"
proof -
  let ?p = "initialPage\<lparr>selectedTransaction := Some pendingAdvance,
              selectedSalaryId := js ''1'', amount := js ''250'',
              salaryLogsData := Some [smallPayment, payment]\<rparr>"
  let ?q = "initialPage\<lparr>selectedTransaction := Some pendingAdvance,
              selectedSalaryId := js ''2'', amount := js ''250'',
              salaryLogsData := Some [smallPayment, payment]\<rparr>"
  let ?r = "initialPage\<lparr>selectedTransaction := Some dimeAdvance,
              selectedSalaryId := js ''1'', amount := js ''0.3'',
              salaryLogsData := Some [smallPayment, payment]\<rparr>"
  have checks: "firstFailure submitChecks p =
      (if selectedTransaction p = None then Some Ignored
       else if selectedSalaryId p = [] then Some (Rejected SelectIncome)
       else if amount p = [] \<or> isNaN (Number (amount p)) \<or> js_le (Number (amount p)) (Fin 0)
       then Some (Rejected InvalidAmount)
       else if js_gt (Number (amount p)) (remainingDebt p) then Some (Rejected ExceedsOutstanding)
       else if (case incomeOfId (selectedSalaryId p) (dataOrEmpty (salaryLogsData p)) of
                  None \<Rightarrow> False
                | Some s \<Rightarrow> js_gt (Number (amount p)) (sl_amount_unused s))
       then Some (Rejected ExceedsAvailable)
       else None)" for p
    by (simp add: submitChecks_def debtCheck_def incomeCheck_def amountCheck_def
          outstandingCheck_def unusedCheck_def)
  have p: "firstFailure submitChecks ?p = None"
    by (simp add: checks) (simp add: page_defs)
  have q: "firstFailure submitChecks ?q = Some (Rejected ExceedsAvailable)"
    by (simp add: checks) (simp add: page_defs)
  have dime: "remainingDebt ?r = Fin (5404319552844595 * 2 ^ 1020)"
    unfolding remainingDebt_def dimeAdvance_def initialPage_def
    using sub_zero [of 5404319552844595 1020] by simp
  have r: "firstFailure submitChecks ?r = None"
    by (simp add: checks dime Number_three_tenths)
       (simp add: page_defs Number_three_tenths whole_def scale_def)
  have reqp: "submitRequest ?p =
               \<lparr>rq_transaction_id = 1, rq_salary_log_id = whole 1, rq_amount = whole 250\<rparr>"
    by (simp add: submitRequest_def page_defs)
  have reqr: "submitRequest ?r =
               \<lparr>rq_transaction_id = 4, rq_salary_log_id = whole 1,
                rq_amount = Fin (5404319552844595 * 2 ^ 1020)\<rparr>"
    by (simp add: submitRequest_def Number_three_tenths Number_examples dimeAdvance_def)
  from handleSubmit_first_failure [of ?p] handleSubmit_first_failure [of ?q]
    handleSubmit_first_failure [of ?r] p q r reqp reqr
  show ?thesis
    by (simp only: option.case simp_thms)
qed

text \<open>
  C3, as stated, fails twice. The amount \<open>Infinity\<close> is not finite, and \<open>handleSubmit\<close> lets
  it pass the amount check: the submission is refused by the check of the outstanding
  balance, with that message. And an amount of zero, with no income entry selected, is
  answered by the message that an income entry must be selected.
\<close>

theorem invalid_amount_counterexample:
  "Number (js ''Infinity'') = PInf
   \<and> handleSubmit
     (initialPage\<lparr>selectedTransaction := Some pendingAdvance, selectedSalaryId := js ''1'',
        amount := js ''Infinity'', salaryLogsData := Some [payment]\<rparr>)
     = Rejected ExceedsOutstanding
   \<and> Number (js ''0'') = Fin 0
   \<and> handleSubmit
     (initialPage\<lparr>selectedTransaction := Some pendingAdvance, amount := js ''0''\<rparr>)
     = Rejected SelectIncome"
  by (simp add: handleSubmit_def page_defs)

text \<open>
  C3, amended. For every settle submission whose amount is empty or whose number is not
  above zero (not numeric, NaN, zero, negative, \<open>-Infinity\<close>), no settle request is sent;
  and when a debt entry and an income entry are selected, the submission is refused with
  the message of the invalid amount. For the amount \<open>+Infinity\<close>, with a finite outstanding
  balance, no settle request is sent either; when a debt entry and an income entry are
  selected, the submission is refused with the message of the outstanding balance.
\<close>

theorem invalid_amount_rejected:
  "(amount p = [] \<or> \<not> js_gt (Number (amount p)) (Fin 0)
      \<longrightarrow> \<not> issued (handleSubmit p)
          \<and> (selectedTransaction p \<noteq> None \<and> selectedSalaryId p \<noteq> []
               \<longrightarrow> handleSubmit p = Rejected InvalidAmount))
   \<and> (Number (amount p) = PInf \<and> (\<exists>d. remainingDebt p = Fin d)
      \<longrightarrow> \<not> issued (handleSubmit p)
          \<and> (selectedTransaction p \<noteq> None \<and> selectedSalaryId p \<noteq> []
               \<longrightarrow> handleSubmit p = Rejected ExceedsOutstanding))"
proof (intro conjI impI)
  assume bad: "amount p = [] \<or> \<not> js_gt (Number (amount p)) (Fin 0)"
  then show "\<not> issued (handleSubmit p)"
    by (cases "selectedTransaction p")
       (auto simp: handleSubmit_def Let_def amount_invalid_iff)
  assume "selectedTransaction p \<noteq> None \<and> selectedSalaryId p \<noteq> []"
  with bad show "handleSubmit p = Rejected InvalidAmount"
    by (auto simp: handleSubmit_def Let_def amount_invalid_iff)
next
  assume inf: "Number (amount p) = PInf \<and> (\<exists>d. remainingDebt p = Fin d)"
  then have ne: "amount p \<noteq> []"
    by (auto simp: Number_empty)
  with inf show "\<not> issued (handleSubmit p)"
    by (cases "selectedTransaction p")
       (auto simp: handleSubmit_def Let_def js_gt_def js_le_def)
  assume "selectedTransaction p \<noteq> None \<and> selectedSalaryId p \<noteq> []"
  with inf ne show "handleSubmit p = Rejected ExceedsOutstanding"
    by (auto simp: handleSubmit_def Let_def js_gt_def js_le_def)
qed

theorem invalid_amount_rejected_witness:
  "\<not> issued (handleSubmit (initialPage\<lparr>amount := js ''abc''\<rparr>))
   \<and> \<not> issued (handleSubmit
        (initialPage\<lparr>selectedTransaction := Some pendingAdvance, amount := js ''-20''\<rparr>))
   \<and> handleSubmit
     (initialPage\<lparr>selectedTransaction := Some pendingAdvance, selectedSalaryId := js ''1'',
        amount := js ''-20'', salaryLogsData := Some [payment]\<rparr>) = Rejected InvalidAmount
   \<and> handleSubmit
     (initialPage\<lparr>selectedTransaction := Some pendingAdvance, selectedSalaryId := js ''1'',
        amount := js ''Infinity'', salaryLogsData := Some [payment]\<rparr>)
     = Rejected ExceedsOutstanding"
proof -
  let ?a = "initialPage\<lparr>amount := js ''abc''\<rparr>"
  let ?b = "initialPage\<lparr>selectedTransaction := Some pendingAdvance, amount := js ''-20''\<rparr>"
  let ?p = "initialPage\<lparr>selectedTransaction := Some pendingAdvance,
              selectedSalaryId := js ''1'', amount := js ''-20'',
              salaryLogsData := Some [payment]\<rparr>"
  let ?q = "initialPage\<lparr>selectedTransaction := Some pendingAdvance,
              selectedSalaryId := js ''1'', amount := js ''Infinity'',
              salaryLogsData := Some [payment]\<rparr>"
  have bada: "\<not> js_gt (Number (amount ?a)) (Fin 0)"
    and badb: "\<not> js_gt (Number (amount ?b)) (Fin 0)"
    and badp: "\<not> js_gt (Number (amount ?p)) (Fin 0)"
    by (simp_all add: page_defs)
  have selp: "selectedTransaction ?p \<noteq> None \<and> selectedSalaryId ?p \<noteq> []"
    and selq: "selectedTransaction ?q \<noteq> None \<and> selectedSalaryId ?q \<noteq> []"
    by (simp_all add: js_not_empty)
  have "remainingDebt ?q = whole 300"
    by (simp add: page_defs)
  then have infq: "Number (amount ?q) = PInf \<and> (\<exists>d. remainingDebt ?q = Fin d)"
    by (simp add: Number_examples whole_def)
  from invalid_amount_rejected [of ?a] bada
  have a: "\<not> issued (handleSubmit ?a)"
    by blast
  from invalid_amount_rejected [of ?b] badb
  have b: "\<not> issued (handleSubmit ?b)"
    by blast
  from invalid_amount_rejected [of ?p] badp selp
  have p: "handleSubmit ?p = Rejected InvalidAmount"
    by blast
  from invalid_amount_rejected [of ?q] infq selq
  have q: "handleSubmit ?q = Rejected ExceedsOutstanding"
    by blast
  from a b p q show ?thesis
    by blast
qed

text \<open>
  C4, as stated, fails when the settled entry is selected with an amount above zero and no
  income entry is selected: the attempt is refused, but by the check of the selection, with
  its message, before the outstanding balance is looked at.
\<close>

theorem settled_entry_counterexample:
  "tx_amount_reimbursed settledAdvance = tx_amount_out settledAdvance
   \<and> js_gt (Number (js ''250'')) (Fin 0)
   \<and> handleSubmit (initialPage\<lparr>selectedTransaction := Some settledAdvance,
                                    amount := js ''250''\<rparr>)
     = Rejected SelectIncome"
  by (simp add: handleSubmit_def page_defs)

text \<open>
  C4, amended. Against a debt entry whose \<open>amount_reimbursed\<close> equals its \<open>amount_out\<close> (a
  finite amount, so that the outstanding balance is 0), \<open>handleSubmit\<close> never sends a
  request, whatever the rest of the form; and an attempt with an income entry selected and
  an amount above zero is refused by the check of the outstanding balance, with its
  message.
\<close>

theorem settled_entry_rejects:
  assumes "selectedTransaction p = Some t"
    and "tx_amount_out t = Fin x" and "tx_amount_reimbursed t = Fin x"
  shows "\<not> issued (handleSubmit p)
         \<and> (selectedSalaryId p \<noteq> [] \<and> js_gt (Number (amount p)) (Fin 0)
              \<longrightarrow> handleSubmit p = Rejected ExceedsOutstanding)"
proof -
  have rem: "remainingDebt p = Fin 0"
    using assms by (simp add: remainingDebt_def toDouble_zero)
  have nonempty: "js_gt (Number (amount p)) (Fin 0) \<Longrightarrow> amount p \<noteq> []"
    by (auto simp: Number_empty js_gt_def)
  show ?thesis
  proof (cases "js_gt (Number (amount p)) (Fin 0)")
    case True
    with rem nonempty assms(1) show ?thesis
      by (simp add: handleSubmit_def Let_def amount_invalid_iff)
  next
    case False
    with assms(1) show ?thesis
      by (simp add: handleSubmit_def Let_def amount_invalid_iff)
  qed
qed

theorem settled_entry_rejects_witness:
  "\<not> issued (handleSubmit
       (initialPage\<lparr>selectedTransaction := Some settledAdvance, selectedSalaryId := js ''1'',
          amount := js ''250'', salaryLogsData := Some [payment]\<rparr>))
   \<and> handleSubmit
       (initialPage\<lparr>selectedTransaction := Some settledAdvance, selectedSalaryId := js ''1'',
          amount := js ''250'', salaryLogsData := Some [payment]\<rparr>)
     = Rejected ExceedsOutstanding"
proof -
  let ?p = "initialPage\<lparr>selectedTransaction := Some settledAdvance,
              selectedSalaryId := js ''1'', amount := js ''250'',
              salaryLogsData := Some [payment]\<rparr>"
  have sel: "selectedTransaction ?p = Some settledAdvance"
    by simp
  have out: "tx_amount_out settledAdvance = Fin (300 * scale)"
    and reimb: "tx_amount_reimbursed settledAdvance = Fin (300 * scale)"
    by (simp_all add: settledAdvance_def whole_def)
  have pos: "selectedSalaryId ?p \<noteq> [] \<and> js_gt (Number (amount ?p)) (Fin 0)"
    by (simp add: page_defs)
  from settled_entry_rejects [OF sel out reimb] pos show ?thesis
    by blast
qed

text \<open>
  C9. When the selected identifier is not empty and is not that of an available income
  entry, one of the list with a balance left, \<open>handleSubmit\<close> makes no check of the unused
  balance: an amount that passed the checks before is sent, with that identifier. In the
  example that follows, the selected entry has no balance left, the other entry of the list
  has 100, and 250 is sent.
\<close>

theorem unused_check_bypassed:
  assumes "selectedTransaction p = Some t"
    and "selectedSalaryId p \<noteq> []"
    and "\<forall>item \<in> set (dataOrEmpty (salaryLogsData p)).
           js_gt (sl_amount_unused item) (Fin 0)
           \<longrightarrow> String (sl_id item) \<noteq> selectedSalaryId p"
    and "js_gt (Number (amount p)) (Fin 0)"
    and "\<not> js_gt (Number (amount p)) (remainingDebt p)"
  shows "handleSubmit p =
           Mutate \<lparr>rq_transaction_id = tx_id t,
                   rq_salary_log_id = Number (selectedSalaryId p),
                   rq_amount = Number (amount p)\<rparr>"
proof -
  have "amount p \<noteq> []"
    using assms(4) by (auto simp: Number_empty js_gt_def)
  moreover have "selectedSalary p = None"
    unfolding selectedSalary_incomeOfId using assms(3) by (rule incomeOfId_None)
  ultimately show ?thesis
    using assms by (simp add: handleSubmit_def Let_def amount_invalid_iff)
qed

theorem unused_check_bypassed_witness:
  "js_gt (whole 250) (sl_amount_unused smallPayment)
   \<and> js_gt (whole 250) (sl_amount_unused spentPayment)
   \<and> handleSubmit
     (initialPage\<lparr>selectedTransaction := Some pendingAdvance, selectedSalaryId := js ''5'',
        amount := js ''250'', salaryLogsData := Some [smallPayment, spentPayment]\<rparr>)
     = Mutate \<lparr>rq_transaction_id = 1, rq_salary_log_id = whole 5, rq_amount = whole 250\<rparr>"
proof -
  let ?p = "initialPage\<lparr>selectedTransaction := Some pendingAdvance,
              selectedSalaryId := js ''5'', amount := js ''250'',
              salaryLogsData := Some [smallPayment, spentPayment]\<rparr>"
  have sel: "selectedTransaction ?p = Some pendingAdvance"
    by simp
  have id: "selectedSalaryId ?p \<noteq> []"
    by (simp add: js_not_empty)
  have none: "\<forall>item \<in> set (dataOrEmpty (salaryLogsData ?p)).
           js_gt (sl_amount_unused item) (Fin 0)
           \<longrightarrow> String (sl_id item) \<noteq> selectedSalaryId ?p"
    by (simp add: page_defs)
  have pos: "js_gt (Number (amount ?p)) (Fin 0)"
    by (simp add: page_defs)
  have within: "\<not> js_gt (Number (amount ?p)) (remainingDebt ?p)"
    by (simp add: page_defs)
  have more: "js_gt (whole 250) (sl_amount_unused smallPayment)
              \<and> js_gt (whole 250) (sl_amount_unused spentPayment)"
    by (simp add: page_defs)
  from unused_check_bypassed [OF sel id none pos within] more show ?thesis
    by (simp add: page_defs)
qed

section \<open>Creating and editing entries\<close>

text \<open>
  C7. \<open>handleCreateTransaction\<close> refuses a form whose title is empty or white space only,
  or whose amount is NaN or at most zero: it reports a validation error and sends nothing.
  Every other form is sent as the create request.
\<close>

theorem create_transaction_validation:
  "(blank (tc_title (transactionForm p)) \<or> isNaN (tc_amount_out (transactionForm p))
      \<or> js_le (tc_amount_out (transactionForm p)) (Fin 0)
     \<longrightarrow> rejected (handleCreateTransaction p) \<and> \<not> issued (handleCreateTransaction p))
   \<and> (\<not> (blank (tc_title (transactionForm p)) \<or> isNaN (tc_amount_out (transactionForm p))
           \<or> js_le (tc_amount_out (transactionForm p)) (Fin 0))
     \<longrightarrow> handleCreateTransaction p = Mutate (transactionForm p))"
  by (auto simp: handleCreateTransaction_def Number_of_number_def Let_def trim_empty_iff)

theorem create_transaction_validation_witness:
  "rejected (handleCreateTransaction
      (initialPage\<lparr>transactionForm :=
         \<lparr>tc_title = js ''  '', tc_amount_out = whole 50, tc_category = Work\<rparr>\<rparr>))
   \<and> rejected (handleCreateTransaction
      (initialPage\<lparr>transactionForm :=
         \<lparr>tc_title = js ''fuel'', tc_amount_out = NaN, tc_category = Work\<rparr>\<rparr>))
   \<and> handleCreateTransaction
      (initialPage\<lparr>transactionForm :=
         \<lparr>tc_title = js ''fuel'', tc_amount_out = whole 50, tc_category = Work\<rparr>\<rparr>)
     = Mutate \<lparr>tc_title = js ''fuel'', tc_amount_out = whole 50, tc_category = Work\<rparr>"
proof -
  let ?a = "initialPage\<lparr>transactionForm :=
              \<lparr>tc_title = js ''  '', tc_amount_out = whole 50, tc_category = Work\<rparr>\<rparr>"
  let ?b = "initialPage\<lparr>transactionForm :=
              \<lparr>tc_title = js ''fuel'', tc_amount_out = NaN, tc_category = Work\<rparr>\<rparr>"
  let ?c = "initialPage\<lparr>transactionForm :=
              \<lparr>tc_title = js ''fuel'', tc_amount_out = whole 50, tc_category = Work\<rparr>\<rparr>"
  have a: "blank (tc_title (transactionForm ?a))"
    by (simp add: blank_examples)
  have b: "isNaN (tc_amount_out (transactionForm ?b))"
    by simp
  have c: "\<not> (blank (tc_title (transactionForm ?c)) \<or> isNaN (tc_amount_out (transactionForm ?c))
               \<or> js_le (tc_amount_out (transactionForm ?c)) (Fin 0))"
    by (simp add: blank_examples js_le_def whole_simps isNaN_whole)
  have form: "transactionForm ?c =
                \<lparr>tc_title = js ''fuel'', tc_amount_out = whole 50, tc_category = Work\<rparr>"
    by simp
  from create_transaction_validation [of ?a] a
  have ra: "rejected (handleCreateTransaction ?a)"
    by blast
  from create_transaction_validation [of ?b] b
  have rb: "rejected (handleCreateTransaction ?b)"
    by blast
  from create_transaction_validation [of ?c] c
  have "handleCreateTransaction ?c = Mutate (transactionForm ?c)"
    by blast
  with form have rc: "handleCreateTransaction ?c
      = Mutate \<lparr>tc_title = js ''fuel'', tc_amount_out = whole 50, tc_category = Work\<rparr>"
    by (simp only:)
  from ra rb rc show ?thesis
    by blast
qed

text \<open>
  C8. \<open>handleCreateSalaryLog\<close> refuses a form whose amount is NaN or at most zero, or whose
  month is empty: it reports a validation error and sends nothing. Every other form is
  sent as the create request, with its amount, month and source; and from that request
  the store creates an entry whose \<open>amountUnused\<close> equals its amount, the amount of the
  request.
\<close>

theorem create_income_validation:
  "(isNaN (sc_amount (salaryForm p)) \<or> js_le (sc_amount (salaryForm p)) (Fin 0)
      \<or> sc_month (salaryForm p) = []
     \<longrightarrow> rejected (handleCreateSalaryLog p) \<and> \<not> issued (handleCreateSalaryLog p))
   \<and> (\<not> (isNaN (sc_amount (salaryForm p)) \<or> js_le (sc_amount (salaryForm p)) (Fin 0)
           \<or> sc_month (salaryForm p) = [])
     \<longrightarrow> (\<exists>r e. handleCreateSalaryLog p = Mutate r
            \<and> sc_amount r = sc_amount (salaryForm p)
            \<and> sc_month r = sc_month (salaryForm p)
            \<and> sc_source r = sc_source (salaryForm p)
            \<and> createIncomeEntry newId now r = Inr e
            \<and> sl_amount e = sc_amount r \<and> sl_amount_unused e = sc_amount r))"
proof (rule conjI; rule impI)
  assume "isNaN (sc_amount (salaryForm p)) \<or> js_le (sc_amount (salaryForm p)) (Fin 0)
            \<or> sc_month (salaryForm p) = []"
  then show "rejected (handleCreateSalaryLog p) \<and> \<not> issued (handleCreateSalaryLog p)"
    by (auto simp: handleCreateSalaryLog_def Number_of_number_def Let_def)
next
  assume ok: "\<not> (isNaN (sc_amount (salaryForm p)) \<or> js_le (sc_amount (salaryForm p)) (Fin 0)
                  \<or> sc_month (salaryForm p) = [])"
  then have pos: "js_gt (sc_amount (salaryForm p)) (Fin 0)"
    using amount_invalid_iff [of "sc_amount (salaryForm p)"] by blast
  let ?r = "(salaryForm p)\<lparr>sc_amount := sc_amount (salaryForm p),
                             sc_remark := trimOrNull (sc_remark (salaryForm p))\<rparr>"
  have run: "handleCreateSalaryLog p = Mutate ?r"
    using ok by (simp add: handleCreateSalaryLog_def Number_of_number_def Let_def)
  have made: "createIncomeEntry newId now ?r =
      Inr \<lparr>sl_id = newId, sl_amount = sc_amount ?r, sl_amount_unused = sc_amount ?r,
           sl_month = sc_month ?r, sl_source = sc_source ?r, sl_remark = sc_remark ?r,
           sl_received_date = now\<rparr>"
    using ok pos by (simp add: createIncomeEntry_def)
  from run made
  have "handleCreateSalaryLog p = Mutate ?r
            \<and> sc_amount ?r = sc_amount (salaryForm p)
            \<and> sc_month ?r = sc_month (salaryForm p)
            \<and> sc_source ?r = sc_source (salaryForm p)
            \<and> createIncomeEntry newId now ?r =
                Inr \<lparr>sl_id = newId, sl_amount = sc_amount ?r, sl_amount_unused = sc_amount ?r,
                     sl_month = sc_month ?r, sl_source = sc_source ?r,
                     sl_remark = sc_remark ?r, sl_received_date = now\<rparr>
            \<and> sl_amount \<lparr>sl_id = newId, sl_amount = sc_amount ?r,
                  sl_amount_unused = sc_amount ?r, sl_month = sc_month ?r,
                  sl_source = sc_source ?r, sl_remark = sc_remark ?r,
                  sl_received_date = now\<rparr> = sc_amount ?r
            \<and> sl_amount_unused \<lparr>sl_id = newId, sl_amount = sc_amount ?r,
                  sl_amount_unused = sc_amount ?r, sl_month = sc_month ?r,
                  sl_source = sc_source ?r, sl_remark = sc_remark ?r,
                  sl_received_date = now\<rparr> = sc_amount ?r"
    by simp
  then show "\<exists>r e. handleCreateSalaryLog p = Mutate r
            \<and> sc_amount r = sc_amount (salaryForm p)
            \<and> sc_month r = sc_month (salaryForm p)
            \<and> sc_source r = sc_source (salaryForm p)
            \<and> createIncomeEntry newId now r = Inr e
            \<and> sl_amount e = sc_amount r \<and> sl_amount_unused e = sc_amount r"
    by blast
qed

theorem create_income_validation_witness:
  "rejected (handleCreateSalaryLog initialPage)
   \<and> (\<exists>r e. handleCreateSalaryLog
        (initialPage\<lparr>salaryForm :=
           \<lparr>sc_amount = whole 500, sc_month = js ''2024-05'', sc_source = Salary,
            sc_remark = Value (js '' bonus '')\<rparr>\<rparr>) = Mutate r
        \<and> createIncomeEntry 7 (js ''2024-05-31'') r = Inr e
        \<and> sl_amount e = whole 500 \<and> sl_amount_unused e = whole 500)
   \<and> (\<exists>r e. handleCreateSalaryLog
        (initialPage\<lparr>salaryForm :=
           \<lparr>sc_amount = PInf, sc_month = js ''2024-05'', sc_source = Salary,
            sc_remark = Null\<rparr>\<rparr>) = Mutate r
        \<and> createIncomeEntry 8 (js ''2024-05-31'') r = Inr e
        \<and> sl_amount e = PInf \<and> sl_amount_unused e = PInf)"
proof -
  let ?p = "initialPage\<lparr>salaryForm :=
              \<lparr>sc_amount = whole 500, sc_month = js ''2024-05'', sc_source = Salary,
               sc_remark = Value (js '' bonus '')\<rparr>\<rparr>"
  let ?q = "initialPage\<lparr>salaryForm :=
              \<lparr>sc_amount = PInf, sc_month = js ''2024-05'', sc_source = Salary,
               sc_remark = Null\<rparr>\<rparr>"
  have bad: "js_le (sc_amount (salaryForm initialPage)) (Fin 0)"
    by (simp add: initialPage_def js_le_def)
  have goodp: "\<not> (isNaN (sc_amount (salaryForm ?p)) \<or> js_le (sc_amount (salaryForm ?p)) (Fin 0)
                  \<or> sc_month (salaryForm ?p) = [])"
    by (simp add: js_le_def js_not_empty whole_simps isNaN_whole)
  have goodq: "\<not> (isNaN (sc_amount (salaryForm ?q)) \<or> js_le (sc_amount (salaryForm ?q)) (Fin 0)
                  \<or> sc_month (salaryForm ?q) = [])"
    by (simp add: js_le_def js_not_empty)
  have amtp: "sc_amount (salaryForm ?p) = whole 500" and amtq: "sc_amount (salaryForm ?q) = PInf"
    by simp_all
  from create_income_validation [of initialPage] bad
  have r1: "rejected (handleCreateSalaryLog initialPage)"
    by blast
  from create_income_validation [of ?p 7 "js ''2024-05-31''"] goodp
  obtain r e where "handleCreateSalaryLog ?p = Mutate r"
    "sc_amount r = sc_amount (salaryForm ?p)" "createIncomeEntry 7 (js ''2024-05-31'') r = Inr e"
    "sl_amount e = sc_amount r" "sl_amount_unused e = sc_amount r"
    by blast
  with amtp have r2: "\<exists>r e. handleCreateSalaryLog ?p = Mutate r
        \<and> createIncomeEntry 7 (js ''2024-05-31'') r = Inr e
        \<and> sl_amount e = whole 500 \<and> sl_amount_unused e = whole 500"
    by (metis (no_types))
  from create_income_validation [of ?q 8 "js ''2024-05-31''"] goodq
  obtain r' e' where "handleCreateSalaryLog ?q = Mutate r'"
    "sc_amount r' = sc_amount (salaryForm ?q)" "createIncomeEntry 8 (js ''2024-05-31'') r' = Inr e'"
    "sl_amount e' = sc_amount r'" "sl_amount_unused e' = sc_amount r'"
    by blast
  with amtq have r3: "\<exists>r e. handleCreateSalaryLog ?q = Mutate r
        \<and> createIncomeEntry 8 (js ''2024-05-31'') r = Inr e
        \<and> sl_amount e = PInf \<and> sl_amount_unused e = PInf"
    by (metis (no_types))
  from r1 r2 r3 show ?thesis
    by blast
qed

text \<open>
  C10. In the request that \<open>handleCreateSalaryLog\<close> sends, the remark is null when the
  remark of the form is absent, null, empty or white space only; otherwise it is the remark
  of the form without the white space at its two ends: the form's remark is white space,
  the remark sent, and white space, and the remark sent is not empty and neither starts
  nor ends with white space.
\<close>

theorem remark_normalised:
  assumes "handleCreateSalaryLog p = Mutate r"
  shows "case sc_remark (salaryForm p) of
           Value s \<Rightarrow>
             if blank s then sc_remark r = Null
             else (\<exists>before t after.
                     sc_remark r = Value t \<and> s = before @ t @ after
                     \<and> blank before \<and> blank after \<and> t \<noteq> []
                     \<and> \<not> isWhiteSpace (hd t) \<and> \<not> isWhiteSpace (last t))
         | _ \<Rightarrow> sc_remark r = Null"
proof -
  from assms have r: "sc_remark r = trimOrNull (sc_remark (salaryForm p))"
    by (auto simp: handleCreateSalaryLog_def Let_def split: if_splits)
  show ?thesis
  proof (cases "sc_remark (salaryForm p)")
    case Undefined
    with r show ?thesis by (simp add: trimOrNull_def)
  next
    case Null
    with r show ?thesis by (simp add: trimOrNull_def)
  next
    case (Value s)
    show ?thesis
    proof (cases "blank s")
      case True
      with r Value show ?thesis
        by (simp add: trimOrNull_def trim_empty_iff)
    next
      case False
      then have ne: "trim s \<noteq> []"
        by (simp add: trim_empty_iff)
      have "sc_remark r = Value (trim s)"
        using r Value ne by (simp add: trimOrNull_def)
      moreover have "s = takeWhile isWhiteSpace s @ trim s
                     @ rev (takeWhile isWhiteSpace (rev (dropWhile isWhiteSpace s)))"
        by (rule trim_decomposition)
      moreover have "blank (takeWhile isWhiteSpace s)"
        by (rule blank_takeWhile)
      moreover have "blank (rev (takeWhile isWhiteSpace (rev (dropWhile isWhiteSpace s))))"
        by (simp add: blank_rev blank_takeWhile)
      moreover note ne trim_ends [OF ne]
      ultimately have "\<exists>before t after.
                     sc_remark r = Value t \<and> s = before @ t @ after
                     \<and> blank before \<and> blank after \<and> t \<noteq> []
                     \<and> \<not> isWhiteSpace (hd t) \<and> \<not> isWhiteSpace (last t)"
        by blast
      with Value False show ?thesis
        by simp
    qed
  qed
qed

theorem remark_normalised_witness:
  "handleCreateSalaryLog
     (initialPage\<lparr>salaryForm :=
        \<lparr>sc_amount = whole 500, sc_month = js ''2024-05'', sc_source = Salary,
         sc_remark = Value (js '' bonus '')\<rparr>\<rparr>)
     = Mutate \<lparr>sc_amount = whole 500, sc_month = js ''2024-05'', sc_source = Salary,
               sc_remark = Value (js ''bonus'')\<rparr>
   \<and> (\<exists>before after. js '' bonus '' = before @ js ''bonus'' @ after
         \<and> blank before \<and> blank after)
   \<and> handleCreateSalaryLog
     (initialPage\<lparr>salaryForm :=
        \<lparr>sc_amount = whole 500, sc_month = js ''2024-05'', sc_source = Salary,
         sc_remark = Value (js ''  '')\<rparr>\<rparr>)
     = Mutate \<lparr>sc_amount = whole 500, sc_month = js ''2024-05'', sc_source = Salary,
               sc_remark = Null\<rparr>"
proof -
  let ?p = "initialPage\<lparr>salaryForm :=
              \<lparr>sc_amount = whole 500, sc_month = js ''2024-05'', sc_source = Salary,
               sc_remark = Value (js '' bonus '')\<rparr>\<rparr>"
  let ?r = "\<lparr>sc_amount = whole 500, sc_month = js ''2024-05'', sc_source = Salary,
             sc_remark = Value (js ''bonus'')\<rparr>"
  let ?q = "initialPage\<lparr>salaryForm :=
              \<lparr>sc_amount = whole 500, sc_month = js ''2024-05'', sc_source = Salary,
               sc_remark = Value (js ''  '')\<rparr>\<rparr>"
  have run: "handleCreateSalaryLog ?p = Mutate ?r"
    by (simp add: handleCreateSalaryLog_def Number_of_number_def js_le_def js_not_empty
          trimOrNull_def trim_examples whole_simps isNaN_whole)
  have runq: "handleCreateSalaryLog ?q
     = Mutate \<lparr>sc_amount = whole 500, sc_month = js ''2024-05'', sc_source = Salary,
               sc_remark = Null\<rparr>"
    by (simp add: handleCreateSalaryLog_def Number_of_number_def js_le_def js_not_empty
          trimOrNull_def trim_empty_iff blank_examples whole_simps isNaN_whole)
  from remark_normalised [OF run]
  have "\<exists>before t after.
          sc_remark ?r = Value t \<and> js '' bonus '' = before @ t @ after
          \<and> blank before \<and> blank after \<and> t \<noteq> []
          \<and> \<not> isWhiteSpace (hd t) \<and> \<not> isWhiteSpace (last t)"
    by (simp add: blank_examples)
  then have "\<exists>before after. js '' bonus '' = before @ js ''bonus'' @ after
               \<and> blank before \<and> blank after"
    by auto
  with run runq show ?thesis
    by blast
qed

text \<open>
  C6. \<open>handleUpdateTransaction\<close> sends the update of the entry being edited whenever the
  trimmed title is not empty and the amount is above zero, whatever the entry has been
  reimbursed: nothing compares the new \<open>amount_out\<close> with \<open>amount_reimbursed\<close>. In the
  example that follows, an entry reimbursed for 200 is rewritten to an amount of 50.
\<close>

theorem update_is_permissive:
  assumes "editingTransaction p = Some t"
    and "\<not> blank (tu_title (editForm p))"
    and "js_gt (tu_amount_out (editForm p)) (Fin 0)"
  shows "handleUpdateTransaction p =
           Mutate \<lparr>up_id = tx_id t,
                   up_payload = \<lparr>tu_title = trim (tu_title (editForm p)),
                                 tu_amount_out = tu_amount_out (editForm p),
                                 tu_category = tu_category (editForm p)\<rparr>\<rparr>"
  using assms
  by (simp add: handleUpdateTransaction_def Number_of_number_def Let_def trim_empty_iff
        amount_invalid_iff)

theorem update_is_permissive_witness:
  "js_less (whole 50) (tx_amount_reimbursed partialAdvance)
   \<and> handleUpdateTransaction
       (initialPage\<lparr>editingTransaction := Some partialAdvance,
          editForm := \<lparr>tu_title = js '' hotel '', tu_amount_out = whole 50,
                       tu_category = Work\<rparr>\<rparr>)
     = Mutate \<lparr>up_id = 2,
               up_payload = \<lparr>tu_title = js ''hotel'', tu_amount_out = whole 50,
                             tu_category = Work\<rparr>\<rparr>"
proof -
  let ?p = "initialPage\<lparr>editingTransaction := Some partialAdvance,
              editForm := \<lparr>tu_title = js '' hotel '', tu_amount_out = whole 50,
                           tu_category = Work\<rparr>\<rparr>"
  have ed: "editingTransaction ?p = Some partialAdvance"
    by simp
  have title: "\<not> blank (tu_title (editForm ?p))"
    by (simp add: blank_examples)
  have amt: "js_gt (tu_amount_out (editForm ?p)) (Fin 0)"
    by (simp add: js_gt_def whole_simps)
  have below: "js_less (whole 50) (tx_amount_reimbursed partialAdvance)"
    by (simp add: partialAdvance_def whole_simps)
  from update_is_permissive [OF ed title amt] below show ?thesis
    by (simp add: trim_examples partialAdvance_def)
qed

end
